theory Spec2Isabelle
  imports Main
begin

section \<open>Errors\<close>

text \<open>
  The Go code reports failure through values of type \<open>error\<close> built with the juju errors
  package. Only the constructors the sources use are modelled:
  \<^item> \<open>Errorf\<close>: \<^verbatim>\<open>errors.Errorf(format, args...)\<close>, a fresh error that holds the
    formatted message only (a cause printed with \<^verbatim>\<open>%v\<close> becomes text);
  \<^item> \<open>NotFoundf\<close>: \<^verbatim>\<open>errors.NotFoundf(...)\<close>;
  \<^item> \<open>NotValidf\<close>: \<^verbatim>\<open>errors.NotValidf(...)\<close>;
  \<^item> \<open>NotFound\<close>: the constant \<^verbatim>\<open>errors.NotFound\<close>;
  \<^item> \<open>ErrPerm\<close>: \<^verbatim>\<open>apiservererrors.ErrPerm\<close>;
  \<^item> \<open>Trace\<close>: \<^verbatim>\<open>errors.Trace(err)\<close>, which keeps message and classification.
  A Go result \<^verbatim>\<open>error\<close> is an \<open>error option\<close>, \<open>None\<close> being \<^verbatim>\<open>nil\<close>; a Go
  result \<^verbatim>\<open>(T, error)\<close> is \<open>error + T\<close>.
\<close>

datatype error =
    Errorf string
  | NotFoundf string
  | NotValidf string
  | NotFound
  | ErrPerm
  | Trace error

text \<open>The method \<^verbatim>\<open>Error()\<close>: the message of an error.\<close>

fun Error :: "error \<Rightarrow> string" where
  "Error (Errorf m) = m"
| "Error (NotFoundf m) = m @ '' not found''"
| "Error (NotValidf m) = m @ '' not valid''"
| "Error NotFound = ''not found''"
| "Error ErrPerm = ''permission denied''"
| "Error (Trace e) = Error e"

text \<open>\<^verbatim>\<open>errors.Is(err, errors.NotFound)\<close> and \<^verbatim>\<open>errors.Is(err, errors.NotValid)\<close>.\<close>

fun IsNotFound :: "error \<Rightarrow> bool" where
  "IsNotFound (NotFoundf m) = True"
| "IsNotFound NotFound = True"
| "IsNotFound (Trace e) = IsNotFound e"
| "IsNotFound e = False"

fun IsNotValid :: "error \<Rightarrow> bool" where
  "IsNotValid (NotValidf m) = True"
| "IsNotValid (Trace e) = IsNotValid e"
| "IsNotValid e = False"

text \<open>
  Whether an error keeps another one in its chain, as \<^verbatim>\<open>errors.Unwrap\<close> walks it:
  \<^verbatim>\<open>Trace\<close> keeps the error it was given; \<^verbatim>\<open>Errorf\<close> keeps none, a value printed
  with \<^verbatim>\<open>%v\<close> being text from then on. The constants that \<^verbatim>\<open>NotFoundf\<close> and
  \<^verbatim>\<open>NotValidf\<close> stand for are covered by \<open>IsNotFound\<close> and \<open>IsNotValid\<close>.
\<close>

fun wraps :: "error \<Rightarrow> error \<Rightarrow> bool" where
  "wraps (Trace e) target = (Trace e = target \<or> wraps e target)"
| "wraps e target = (e = target)"

section \<open>The SSHServer facade (apiserver/facades/controller/sshserver)\<close>

subsection \<open>Collaborators outside the package\<close>

text \<open>
  \<^verbatim>\<open>params.SSHPKIAuthArgs\<close>. A Go \<^verbatim>\<open>[]byte\<close> and a Go \<^verbatim>\<open>string\<close> are both
  sequences of bytes, here \<open>string\<close>; the conversion \<^verbatim>\<open>[]byte(authKey)\<close> is the identity.
\<close>

record SSHPKIAuthArgs =
  UserTag :: string
  PublicKey :: string

text \<open>
  Library functions the facade calls, taken as parameters: \<^verbatim>\<open>names.ParseUserTag\<close>,
  \<^verbatim>\<open>gossh.ParsePublicKey\<close>, \<^verbatim>\<open>gossh.ParseAuthorizedKey\<close> (its first result and its
  error), \<^verbatim>\<open>ssh.KeysEqual\<close> and \<^verbatim>\<open>jujussh.SplitAuthorisedKeys\<close>. \<open>'u\<close> is the type
  of parsed user tags, \<open>'k\<close> the type of parsed public keys.
\<close>

record ('u, 'k) Lib =
  ParseUserTag :: "string \<Rightarrow> error + 'u"
  ParsePublicKey :: "string \<Rightarrow> error + 'k"
  ParseAuthorizedKey :: "string \<Rightarrow> error + 'k"
  KeysEqual :: "'k \<Rightarrow> 'k \<Rightarrow> bool"
  SplitAuthorisedKeys :: "string \<Rightarrow> string list"

text \<open>\<^verbatim>\<open>config.Config\<close> and \<^verbatim>\<open>state.Model\<close>, as far as the facade reads them.\<close>

record config =
  AuthorizedKeys :: string

record model =
  Config :: "error + config"

text \<open>The interfaces \<^verbatim>\<open>SystemState\<close> and \<^verbatim>\<open>StatePool\<close> (with the pool's \<^verbatim>\<open>SystemState()\<close>).\<close>

record 'u SystemState =
  ModelUUIDsForUser :: "'u \<Rightarrow> error + string list"

record 'u StatePool =
  GetModel :: "string \<Rightarrow> error + model"
  SystemState :: "error + 'u SystemState"

text \<open>\<^verbatim>\<open>facade.Authorizer\<close> and \<^verbatim>\<open>facade.Context\<close>; \<open>'r\<close> stands for \<^verbatim>\<open>facade.Resources\<close>.\<close>

record Authorizer =
  AuthController :: bool

record ('u, 'r) Context =
  Auth :: Authorizer
  StatePool :: "'u StatePool"
  Resources :: 'r

subsection \<open>The facade\<close>

record ('u, 'r) Facade =
  resources :: 'r
  systemState :: "'u SystemState"
  statePool :: "'u StatePool"

definition NewFacade ::
  "('u, 'r) Context \<Rightarrow> 'u StatePool \<Rightarrow> 'u SystemState \<Rightarrow> ('u, 'r) Facade" where
  "NewFacade ctx pool sys =
     \<lparr>resources = Resources ctx, systemState = sys, statePool = pool\<rparr>"

text \<open>
  Calls that leave the facade are recorded in order, so that a claim about what is or is
  not fetched or examined can be stated: the model listing, \<^verbatim>\<open>GetModel\<close>,
  \<^verbatim>\<open>model.Config()\<close>, the deferred \<^verbatim>\<open>p.Release()\<close> and each attempt to parse a stored
  entry.
\<close>

datatype 'u call =
    CallModelUUIDsForUser 'u
  | CallGetModel string
  | CallConfig string
  | CallRelease string
  | CallParseAuthorizedKey string

text \<open>\<^verbatim>\<open>authorizedKeysPerModel\<close> collects the authorized keys given a model uuid.\<close>

definition authorizedKeysPerModel ::
  "('u, 'k) Lib \<Rightarrow> ('u, 'r) Facade \<Rightarrow> string \<Rightarrow> 'u call list \<times> (error + string list)" where
  "authorizedKeysPerModel lib f uuid =
     (case GetModel (statePool f) uuid of
        Inl err \<Rightarrow> ([CallGetModel uuid], Inl (Trace err))
      | Inr m \<Rightarrow>
          (case Config m of
             Inl err \<Rightarrow> ([CallGetModel uuid, CallConfig uuid, CallRelease uuid], Inl (Trace err))
           | Inr cfg \<Rightarrow>
               ([CallGetModel uuid, CallConfig uuid, CallRelease uuid],
                Inr (SplitAuthorisedKeys lib (AuthorizedKeys cfg)))))"

text \<open>
  The inner loop of \<^verbatim>\<open>PublicKeyAuthentication\<close> over the entries of one model: \<open>True\<close>
  when the loop body returns \<^verbatim>\<open>nil\<close>, \<open>False\<close> when the loop runs to its end.
\<close>

fun scanAuthKeys :: "('u, 'k) Lib \<Rightarrow> 'k \<Rightarrow> string list \<Rightarrow> 'u call list \<times> bool" where
  "scanAuthKeys lib publicKey [] = ([], False)"
| "scanAuthKeys lib publicKey (authKey # rest) =
     (case ParseAuthorizedKey lib authKey of
        Inl err \<Rightarrow>
          (let (cs, found) = scanAuthKeys lib publicKey rest
           in (CallParseAuthorizedKey authKey # cs, found))
      | Inr pubKey \<Rightarrow>
          if KeysEqual lib publicKey pubKey then ([CallParseAuthorizedKey authKey], True)
          else (let (cs, found) = scanAuthKeys lib publicKey rest
                in (CallParseAuthorizedKey authKey # cs, found)))"

text \<open>The outer loop over the model uuids, and the \<^verbatim>\<open>return\<close> that follows it.\<close>

fun scanModels ::
  "('u, 'k) Lib \<Rightarrow> ('u, 'r) Facade \<Rightarrow> 'k \<Rightarrow> string list \<Rightarrow> 'u call list \<times> error option" where
  "scanModels lib f publicKey [] = ([], Some (NotFoundf ''matching public key not found''))"
| "scanModels lib f publicKey (uuid # rest) =
     (case authorizedKeysPerModel lib f uuid of
        (cs, Inl err) \<Rightarrow>
          (cs, Some (Errorf (''failed to get authorized key for model: '' @ Error err)))
      | (cs, Inr authKeys) \<Rightarrow>
          (case scanAuthKeys lib publicKey authKeys of
             (ks, True) \<Rightarrow> (cs @ ks, None)
           | (ks, False) \<Rightarrow>
               (let (ms, r) = scanModels lib f publicKey rest in (cs @ ks @ ms, r))))"

text \<open>
  \<^verbatim>\<open>PublicKeyAuthentication\<close> extracts the models a user has access to, gets all the
  authorized keys and searches for a match. The first component of the result is the
  sequence of calls made, the second the returned error.
\<close>

definition PublicKeyAuthentication ::
  "('u, 'k) Lib \<Rightarrow> ('u, 'r) Facade \<Rightarrow> SSHPKIAuthArgs \<Rightarrow> 'u call list \<times> error option" where
  "PublicKeyAuthentication lib f sshPKIAuthArgs =
     (case ParseUserTag lib (UserTag sshPKIAuthArgs) of
        Inl err \<Rightarrow> ([], Some (Errorf (''failed to parse user tag: '' @ Error err)))
      | Inr userTag \<Rightarrow>
          (case ParsePublicKey lib (PublicKey sshPKIAuthArgs) of
             Inl err \<Rightarrow> ([], Some (Errorf (''failed to parse public key: '' @ Error err)))
           | Inr publicKey \<Rightarrow>
               (case ModelUUIDsForUser (systemState f) userTag of
                  Inl err \<Rightarrow>
                    ([CallModelUUIDsForUser userTag],
                     Some (Errorf (''failed to get model uuids for user: '' @ Error err)))
                | Inr modelUUIDs \<Rightarrow>
                    (let (cs, r) = scanModels lib f publicKey modelUUIDs
                     in (CallModelUUIDsForUser userTag # cs, r)))))"

subsection \<open>Registration (register.go)\<close>

text \<open>\<^verbatim>\<open>NewExternalFacade\<close> creates a new authorized facade.\<close>

definition NewExternalFacade :: "('u, 'r) Context \<Rightarrow> error + ('u, 'r) Facade" where
  "NewExternalFacade ctx =
     (let authorizer = Auth ctx in
      if \<not> AuthController authorizer then Inl ErrPerm
      else
        (let pool = StatePool ctx in
         case SystemState pool of
           Inl err \<Rightarrow> Inl (Trace err)
         | Inr sys \<Rightarrow> Inr (NewFacade ctx pool sys)))"

text \<open>
  A factory has the Go type \<^verbatim>\<open>func(facade.Context) (facade.Facade, error)\<close>. The closure
  that \<^verbatim>\<open>Register\<close> passes returns both results of \<^verbatim>\<open>NewExternalFacade\<close> as they are,
  so its first result is an interface value that always holds a \<^verbatim>\<open>*Facade\<close>: the nil
  pointer when \<^verbatim>\<open>NewExternalFacade\<close> returned \<^verbatim>\<open>nil\<close> with an error. That interface
  value is \<open>FacadePointer\<close> of an optional facade, \<open>None\<close> being the nil pointer; it is
  never the nil interface.
\<close>

datatype 'f FacadeValue = FacadePointer "'f option"

type_synonym ('u, 'r) Factory =
  "('u, 'r) Context \<Rightarrow> ('u, 'r) Facade FacadeValue \<times> error option"

type_synonym ('u, 'r) FacadeRegistry = "string \<times> nat \<rightharpoonup> ('u, 'r) Factory"

text \<open>
  \<^verbatim>\<open>Register\<close> exposes the facade on a registry under the name \<^verbatim>\<open>SSHServer\<close>, version 1.
  The registry is a map from name and version to factory.
\<close>

definition Register :: "('u, 'r) FacadeRegistry \<Rightarrow> ('u, 'r) FacadeRegistry" where
  "Register registry =
     registry((''SSHServer'', 1) \<mapsto>
       (\<lambda>ctx. case NewExternalFacade ctx of
                Inl err \<Rightarrow> (FacadePointer None, Some err)
              | Inr fa \<Rightarrow> (FacadePointer (Some fa), None)))"

text \<open>
  How an RPC reaches a method of a facade. The server that dispatches the call is not part
  of the package; what is modelled is the contract of a factory: the server calls the
  factory with the caller's context, answers with the factory's error when there is one,
  and otherwise invokes the method on the facade the factory returned. A method is any
  function of its receiver (\<^verbatim>\<open>ControllerConfig\<close>, \<^verbatim>\<open>WatchControllerConfig\<close>,
  \<^verbatim>\<open>SSHServerHostKey\<close>, \<^verbatim>\<open>PublicKeyAuthentication\<close> with its arguments). A nil error
  with a nil pointer would end in a nil dereference.
\<close>

datatype 'a rpcOutcome = Refused error | NilDereference | Reached 'a

definition rpcCall ::
  "('u, 'r) Factory \<Rightarrow> ('u, 'r) Context \<Rightarrow> (('u, 'r) Facade \<Rightarrow> 'a) \<Rightarrow> 'a rpcOutcome" where
  "rpcCall factory ctx method =
     (case factory ctx of
        (obj, Some err) \<Rightarrow> Refused err
      | (FacadePointer None, None) \<Rightarrow> NilDereference
      | (FacadePointer (Some fa), None) \<Rightarrow> Reached (method fa))"

subsection \<open>Vocabulary of the statements\<close>

text \<open>
  A stored entry matches the candidate key when it parses and the parsed key is equal,
  by \<^verbatim>\<open>KeysEqual\<close>, to the candidate.
\<close>

definition entryMatches :: "('u, 'k) Lib \<Rightarrow> 'k \<Rightarrow> string \<Rightarrow> bool" where
  "entryMatches lib publicKey authKey =
     (case ParseAuthorizedKey lib authKey of
        Inl err \<Rightarrow> False
      | Inr pubKey \<Rightarrow> KeysEqual lib publicKey pubKey)"

text \<open>
  The stored entries of a model as the remote interface gives them: the model from the
  state pool, its configuration, the authorized keys split. There are none when either
  remote call fails.
\<close>

definition storedEntries :: "('u, 'k) Lib \<Rightarrow> ('u, 'r) Facade \<Rightarrow> string \<Rightarrow> string list" where
  "storedEntries lib f uuid =
     (case GetModel (statePool f) uuid of
        Inl err \<Rightarrow> []
      | Inr mdl \<Rightarrow>
          (case Config mdl of
             Inl err \<Rightarrow> []
           | Inr cfg \<Rightarrow> SplitAuthorisedKeys lib (AuthorizedKeys cfg)))"

text \<open>The outcome of fetching one model's authorized keys, without the calls.\<close>

definition fetchKeys :: "('u, 'k) Lib \<Rightarrow> ('u, 'r) Facade \<Rightarrow> string \<Rightarrow> error + string list" where
  "fetchKeys lib f uuid = snd (authorizedKeysPerModel lib f uuid)"

text \<open>A model whose list is fetched and holds no matching entry.\<close>

definition noMatchIn :: "('u, 'k) Lib \<Rightarrow> ('u, 'r) Facade \<Rightarrow> 'k \<Rightarrow> string \<Rightarrow> bool" where
  "noMatchIn lib f publicKey uuid =
     (case fetchKeys lib f uuid of
        Inl err \<Rightarrow> False
      | Inr authKeys \<Rightarrow> list_all (\<lambda>authKey. \<not> entryMatches lib publicKey authKey) authKeys)"

text \<open>A model whose list is fetched and holds a matching entry.\<close>

definition matchIn :: "('u, 'k) Lib \<Rightarrow> ('u, 'r) Facade \<Rightarrow> 'k \<Rightarrow> string \<Rightarrow> bool" where
  "matchIn lib f publicKey uuid =
     (case fetchKeys lib f uuid of
        Inl err \<Rightarrow> False
      | Inr authKeys \<Rightarrow> list_ex (entryMatches lib publicKey) authKeys)"

text \<open>The calls made for a model that is fetched and scanned to the end of its list.\<close>

definition fullScanCalls :: "('u, 'k) Lib \<Rightarrow> ('u, 'r) Facade \<Rightarrow> string \<Rightarrow> 'u call list" where
  "fullScanCalls lib f uuid =
     (case fetchKeys lib f uuid of
        Inl err \<Rightarrow> []
      | Inr authKeys \<Rightarrow>
          [CallGetModel uuid, CallConfig uuid, CallRelease uuid]
          @ map CallParseAuthorizedKey authKeys)"

subsection \<open>A small controller used to instantiate the theorems\<close>

text \<open>
  User tags are \<open>user-<name>\<close>; the wire form of key \<open>n\<close> is the letter K and a digit;
  a stored entry is \<open>ssh-rsa\<close>, the wire form and a comment. Authorized keys are split at
  line feeds, empty lines and comment lines dropped.
\<close>

fun splitLines :: "string \<Rightarrow> string \<Rightarrow> string list" where
  "splitLines acc [] = [rev acc]"
| "splitLines acc (c # cs) =
     (if c = CHR 0x0A then rev acc # splitLines [] cs else splitLines (c # acc) cs)"

definition exLib :: "(string, nat) Lib" where
  "exLib =
     \<lparr>ParseUserTag = (\<lambda>s. if take 5 s = ''user-'' \<and> drop 5 s \<noteq> [] then Inr (drop 5 s)
                          else Inl (Errorf (s @ '' is not a valid user tag''))),
      ParsePublicKey = (\<lambda>b. if b = ''K1'' then Inr 1 else if b = ''K2'' then Inr 2
                            else Inl (Errorf ''ssh: short read'')),
      ParseAuthorizedKey = (\<lambda>s. if take 11 s = ''ssh-rsa K1 '' then Inr 1
                                else if take 11 s = ''ssh-rsa K2 '' then Inr 2
                                else Inl (Errorf ''ssh: no key found'')),
      KeysEqual = (\<lambda>a b. a = b),
      SplitAuthorisedKeys =
        (\<lambda>s. filter (\<lambda>l. l \<noteq> [] \<and> hd l \<noteq> CHR ''#'') (splitLines [] s))\<rparr>"

definition exSystemState :: "string SystemState" where
  "exSystemState =
     \<lparr>ModelUUIDsForUser = (\<lambda>u.
        if u = ''owner'' then Inr [''m1'', ''m2'']
        else if u = ''bob'' then Inr [''m2'']
        else if u = ''carol'' then Inr [''gone'', ''m1'']
        else if u = ''dave'' then Inr [''m2'', ''m3'']
        else if u = ''erin'' then Inr [''m3'', ''m1'']
        else if u = ''down'' then Inl (Errorf ''connection is shut down'')
        else Inr [])\<rparr>"

definition exPool :: "string StatePool" where
  "exPool =
     \<lparr>GetModel = (\<lambda>uuid.
        if uuid = ''m1'' then
          Inr \<lparr>Config = Inr \<lparr>AuthorizedKeys = ''garbage'' @ [CHR 0x0A] @ ''ssh-rsa K1 owner''\<rparr>\<rparr>
        else if uuid = ''m2'' then
          Inr \<lparr>Config = Inr \<lparr>AuthorizedKeys =
            ''ssh-rsa K2 bob'' @ [CHR 0x0A] @ ''ssh-rsa K1 laptop''\<rparr>\<rparr>
        else if uuid = ''m3'' then Inr \<lparr>Config = Inl (Errorf ''config unavailable'')\<rparr>
        else Inl (NotFoundf (''model '' @ uuid))),
      SystemState = Inr exSystemState\<rparr>"

definition exCtx :: "bool \<Rightarrow> (string, unit) Context" where
  "exCtx isController =
     \<lparr>Auth = \<lparr>AuthController = isController\<rparr>, StatePool = exPool, Resources = ()\<rparr>"

definition exFacade :: "(string, unit) Facade" where
  "exFacade =
     \<lparr>resources = (),
      systemState = exSystemState,
      statePool = exPool\<rparr>"

text \<open>A controller whose state pool is closed.\<close>

definition closedCtx :: "(string, unit) Context" where
  "closedCtx =
     \<lparr>Auth = \<lparr>AuthController = True\<rparr>,
      StatePool = \<lparr>GetModel = (\<lambda>uuid. Inl (Errorf ''pool is closed'')),
                   SystemState = Inl (Errorf ''pool is closed'')\<rparr>,
      Resources = ()\<rparr>"

section \<open>The SSH server worker (internal/worker/sshserver)\<close>

text \<open>
  The worker's implementation file is not among the sources; its tests are. The
  definitions of this section follow the specification, with the names the tests use:
  \<^verbatim>\<open>ServerWorkerConfig\<close> with the fields \<^verbatim>\<open>Logger\<close>, \<^verbatim>\<open>Listener\<close>, \<^verbatim>\<open>JumpHostKey\<close>
  (the specification's host key) and \<^verbatim>\<open>FacadeClient\<close> (its authorization client).
\<close>

text \<open>The authorization capability: \<^verbatim>\<open>FacadeClient.PublicKeyAuthentication\<close>.\<close>

type_synonym FacadeClient = "SSHPKIAuthArgs \<Rightarrow> error option"

text \<open>
  An interface or pointer field that may be \<^verbatim>\<open>nil\<close> is an option; the unset string is
  the empty string. \<open>'l\<close> is the logger type, \<open>'n\<close> the listener type.
\<close>

record ('l, 'n) ServerWorkerConfig =
  Logger :: "'l option"
  Listener :: "'n option"
  JumpHostKey :: string
  FacadeClient :: "FacadeClient option"

text \<open>
  Modelled from the spec: \<^verbatim>\<open>ServerWorkerConfig.Validate\<close>, whose source is missing. The
  specification says that it fails with a "not valid" error if the host key, the listener
  or the authorization client is unset; it fixes neither the order of the checks nor the
  messages.
\<close>

definition Validate :: "('l, 'n) ServerWorkerConfig \<Rightarrow> error option" where
  "Validate cfg =
     (if JumpHostKey cfg = [] then Some (NotValidf ''JumpHostKey'')
      else if Listener cfg = None then Some (NotValidf ''Listener'')
      else if FacadeClient cfg = None then Some (NotValidf ''FacadeClient'')
      else None)"

text \<open>
  Modelled from the spec: the destination descriptor, whose declaration is missing. It is
  parsed from the host of a \<^verbatim>\<open>direct-tcpip\<close> request and has a unit number, an
  application name, a model identifier and a port. The fixed domain suffix is the one of
  the test's destination \<^verbatim>\<open>1.postgresql.8419cd78-4993-4c3a-928e-c646226beeee.juju.local:20\<close>.
\<close>

record Destination =
  unitNumber :: nat
  applicationName :: string
  modelID :: string
  port :: nat

definition domainSuffix :: string where
  "domainSuffix = ''juju.local''"

text \<open>
  Modelled from the spec: the unit number is a non-negative integer, written in decimal in
  the host \<open><unitNumber>.<applicationName>.<modelID>.<fixed-domain-suffix>\<close>.
\<close>

definition digit :: "nat \<Rightarrow> char" where
  "digit n = ''0123456789'' ! n"

fun decimal :: "nat \<Rightarrow> string" where
  "decimal n = (if n < 10 then [digit n] else decimal (n div 10) @ [digit (n mod 10)])"

definition destinationHost :: "Destination \<Rightarrow> string" where
  "destinationHost d =
     decimal (unitNumber d) @ ''.'' @ applicationName d @ ''.'' @ modelID d @ ''.'' @ domainSuffix"

text \<open>
  Modelled from the spec: what the client of a session observes, that is the output
  received and whether the session and the channel are closed.
\<close>

record Session =
  sessionOutput :: string
  sessionClosed :: bool
  channelClosed :: bool

definition newSession :: Session where
  "newSession = \<lparr>sessionOutput = [], sessionClosed = False, channelClosed = False\<rparr>"

text \<open>
  Modelled from the spec: the session handler of the terminating hop, whose source is
  missing. Whatever the request, it writes the fixed acknowledgement naming the resolved
  destination and the authenticated user, then closes the session and the channel.
\<close>

definition sessionHandler :: "Destination \<Rightarrow> string \<Rightarrow> Session \<Rightarrow> Session" where
  "sessionHandler d user s =
     s\<lparr>sessionOutput := sessionOutput s @ ''Your final destination is: '' @ destinationHost d
                        @ '' as user: '' @ user @ [CHR 0x0A],
       sessionClosed := True,
       channelClosed := True\<rparr>"

text \<open>
  Modelled from the spec: the public-key callback of the terminating hop, whose source is
  missing. It takes the requested user and the offered key, calls the authorization client
  and grants the key exactly when the result is \<^verbatim>\<open>nil\<close>. How the user name becomes a user
  tag is not in the specification and is the parameter \<open>tagOf\<close>.
\<close>

definition publicKeyHandler :: "FacadeClient \<Rightarrow> (string \<Rightarrow> string) \<Rightarrow> string \<Rightarrow> string \<Rightarrow> bool" where
  "publicKeyHandler client tagOf user key =
     (case client \<lparr>UserTag = tagOf user, PublicKey = key\<rparr> of
        None \<Rightarrow> True
      | Some err \<Rightarrow> False)"

text \<open>
  Modelled from the spec: the public-key negotiation of the terminating handshake. The
  keys are taken in the order the client offers them; a denied key leaves the remaining
  ones to be tried; when none is left the client sees an authentication failure.
\<close>

datatype handshake = Authenticated string | UnableToAuthenticate

fun terminatingHandshake ::
  "FacadeClient \<Rightarrow> (string \<Rightarrow> string) \<Rightarrow> string \<Rightarrow> string list \<Rightarrow> handshake" where
  "terminatingHandshake client tagOf user [] = UnableToAuthenticate"
| "terminatingHandshake client tagOf user (key # keys) =
     (if publicKeyHandler client tagOf user key then Authenticated key
      else terminatingHandshake client tagOf user keys)"

text \<open>
  The authorization client of \<^verbatim>\<open>TestSSHPublicKeyHandler\<close>: \<^verbatim>\<open>nil\<close> when the user tag
  contains \<^verbatim>\<open>alice\<close>, \<^verbatim>\<open>errors.NotFound\<close> otherwise.
\<close>

fun containsStr :: "string \<Rightarrow> string \<Rightarrow> bool" where
  "containsStr [] sub = (sub = [])"
| "containsStr (c # cs) sub = (take (length sub) (c # cs) = sub \<or> containsStr cs sub)"

definition aliceClient :: FacadeClient where
  "aliceClient sshPKIAuthArgs =
     (if containsStr (UserTag sshPKIAuthArgs) ''alice'' then None else Some NotFound)"

definition userTagOf :: "string \<Rightarrow> string" where
  "userTagOf user = ''user-'' @ user"

section \<open>Properties of the facade\<close>

subsection \<open>The scan of one model's entries\<close>

lemma scanAuthKeys_found: "snd (scanAuthKeys lib pk ks) = list_ex (entryMatches lib pk) ks"
  by (induction ks) (auto simp: entryMatches_def split: sum.splits prod.splits)

lemma scanAuthKeys_none:
  "list_all (\<lambda>k. \<not> entryMatches lib pk k) ks \<Longrightarrow>
   scanAuthKeys lib pk ks = (map CallParseAuthorizedKey ks, False)"
  by (induction ks) (auto simp: entryMatches_def split: sum.splits prod.splits)

lemma scanAuthKeys_first:
  "list_all (\<lambda>k. \<not> entryMatches lib pk k) ks1 \<Longrightarrow> entryMatches lib pk k \<Longrightarrow>
   scanAuthKeys lib pk (ks1 @ k # ks2) = (map CallParseAuthorizedKey (ks1 @ [k]), True)"
  by (induction ks1) (auto simp: entryMatches_def split: sum.splits prod.splits)

lemma authorizedKeysPerModel_Inr:
  "fetchKeys lib f uuid = Inr ks \<Longrightarrow>
   authorizedKeysPerModel lib f uuid = ([CallGetModel uuid, CallConfig uuid, CallRelease uuid], Inr ks)"
  by (auto simp: fetchKeys_def authorizedKeysPerModel_def split: sum.splits)

lemma scanModels_noMatch_step:
  "noMatchIn lib f pk uuid \<Longrightarrow>
   scanModels lib f pk (uuid # rest) =
     (fullScanCalls lib f uuid @ fst (scanModels lib f pk rest), snd (scanModels lib f pk rest))"
  by (auto simp: noMatchIn_def fullScanCalls_def authorizedKeysPerModel_Inr scanAuthKeys_none
           split: sum.splits prod.splits)

lemma scanModels_prefix:
  "list_all (noMatchIn lib f pk) ms1 \<Longrightarrow>
   scanModels lib f pk (ms1 @ rest) =
     (concat (map (fullScanCalls lib f) ms1) @ fst (scanModels lib f pk rest),
      snd (scanModels lib f pk rest))"
proof (induction ms1)
  case Nil
  show ?case by simp
next
  case (Cons m ms1)
  then have m: "noMatchIn lib f pk m" and ms1: "list_all (noMatchIn lib f pk) ms1"
    by simp_all
  have "scanModels lib f pk ((m # ms1) @ rest) = scanModels lib f pk (m # (ms1 @ rest))"
    by simp
  also have "\<dots> = (fullScanCalls lib f m @ fst (scanModels lib f pk (ms1 @ rest)),
                     snd (scanModels lib f pk (ms1 @ rest)))"
    by (rule scanModels_noMatch_step [OF m])
  finally show ?case
    by (simp add: Cons.IH [OF ms1])
qed

lemma scanModels_exhausted:
  "list_all (noMatchIn lib f pk) ms \<Longrightarrow>
   scanModels lib f pk ms =
     (concat (map (fullScanCalls lib f) ms), Some (NotFoundf ''matching public key not found''))"
  using scanModels_prefix [of lib f pk ms "[]"] by simp

lemma scanModels_fetch_fails:
  "fetchKeys lib f uuid = Inl err \<Longrightarrow>
   scanModels lib f pk (uuid # rest) =
     (fst (authorizedKeysPerModel lib f uuid),
      Some (Errorf (''failed to get authorized key for model: '' @ Error err)))"
  by (auto simp: fetchKeys_def split: sum.splits prod.splits)

lemma scanModels_match_here:
  "fetchKeys lib f uuid = Inr ks \<Longrightarrow> list_ex (entryMatches lib pk) ks \<Longrightarrow>
   snd (scanModels lib f pk (uuid # rest)) = None"
  using scanAuthKeys_found [of lib pk ks]
  by (auto simp: authorizedKeysPerModel_Inr split: sum.splits prod.splits bool.splits)

lemma PublicKeyAuthentication_listed:
  "ParseUserTag lib (UserTag a) = Inr u \<Longrightarrow> ParsePublicKey lib (PublicKey a) = Inr pk \<Longrightarrow>
   ModelUUIDsForUser (systemState f) u = Inr ms \<Longrightarrow>
   PublicKeyAuthentication lib f a =
     (CallModelUUIDsForUser u # fst (scanModels lib f pk ms), snd (scanModels lib f pk ms))"
  by (simp add: PublicKeyAuthentication_def split: prod.splits)


lemma model_trichotomy:
  "noMatchIn lib f pk m \<or> matchIn lib f pk m \<or> (\<exists>err. fetchKeys lib f m = Inl err)"
  by (cases "fetchKeys lib f m")
     (auto simp: noMatchIn_def matchIn_def list_all_iff list_ex_iff)

lemma noMatchIn_fetched: "noMatchIn lib f pk m \<Longrightarrow> \<exists>ks. fetchKeys lib f m = Inr ks"
  by (cases "fetchKeys lib f m") (auto simp: noMatchIn_def)

lemma scan_cases:
  "list_all (noMatchIn lib f pk) ms \<or>
   (\<exists>ms1 m ms2. ms = ms1 @ m # ms2 \<and> list_all (noMatchIn lib f pk) ms1 \<and>
      (matchIn lib f pk m \<or> (\<exists>err. fetchKeys lib f m = Inl err)))"
proof (induction ms)
  case Nil
  show ?case by simp
next
  case (Cons x xs)
  show ?case
  proof (cases "noMatchIn lib f pk x")
    case False
    with model_trichotomy [of lib f pk x]
    have "matchIn lib f pk x \<or> (\<exists>err. fetchKeys lib f x = Inl err)" by blast
    then have "x # xs = [] @ x # xs \<and> list_all (noMatchIn lib f pk) [] \<and>
      (matchIn lib f pk x \<or> (\<exists>err. fetchKeys lib f x = Inl err))" by simp
    then show ?thesis by blast
  next
    case True
    from Cons.IH show ?thesis
    proof
      assume "list_all (noMatchIn lib f pk) xs"
      with True show ?thesis by simp
    next
      assume "\<exists>ms1 m ms2. xs = ms1 @ m # ms2 \<and> list_all (noMatchIn lib f pk) ms1 \<and>
        (matchIn lib f pk m \<or> (\<exists>err. fetchKeys lib f m = Inl err))"
      then obtain ms1 m ms2 where d: "xs = ms1 @ m # ms2"
        "list_all (noMatchIn lib f pk) ms1"
        "matchIn lib f pk m \<or> (\<exists>err. fetchKeys lib f m = Inl err)" by blast
      with True have "x # xs = (x # ms1) @ m # ms2 \<and> list_all (noMatchIn lib f pk) (x # ms1) \<and>
        (matchIn lib f pk m \<or> (\<exists>err. fetchKeys lib f m = Inl err))" by simp
      then show ?thesis by blast
    qed
  qed
qed

lemma scanModels_first_match:
  assumes "list_all (noMatchIn lib f pk) ms1" "matchIn lib f pk m"
  shows "snd (scanModels lib f pk (ms1 @ m # ms2)) = None"
proof -
  from assms(2) obtain ks where "fetchKeys lib f m = Inr ks" "list_ex (entryMatches lib pk) ks"
    by (cases "fetchKeys lib f m") (auto simp: matchIn_def)
  then have "snd (scanModels lib f pk (m # ms2)) = None"
    by (rule scanModels_match_here)
  with scanModels_prefix [OF assms(1), of "m # ms2"] show ?thesis by simp
qed

lemma scanModels_first_failure:
  assumes "list_all (noMatchIn lib f pk) ms1" "fetchKeys lib f m = Inl err"
  shows "scanModels lib f pk (ms1 @ m # ms2) =
     (concat (map (fullScanCalls lib f) ms1) @ fst (authorizedKeysPerModel lib f m),
      Some (Errorf (''failed to get authorized key for model: '' @ Error err)))"
  using scanModels_prefix [OF assms(1), of "m # ms2"] scanModels_fetch_fails [OF assms(2), of pk ms2]
  by simp

lemma scanModels_nil_iff:
  "snd (scanModels lib f pk ms) = None \<longleftrightarrow>
   (\<exists>ms1 m ms2. ms = ms1 @ m # ms2 \<and> list_all (noMatchIn lib f pk) ms1 \<and> matchIn lib f pk m)"
proof
  assume nil: "snd (scanModels lib f pk ms) = None"
  from scan_cases [of lib f pk ms] show
    "\<exists>ms1 m ms2. ms = ms1 @ m # ms2 \<and> list_all (noMatchIn lib f pk) ms1 \<and> matchIn lib f pk m"
  proof
    assume "list_all (noMatchIn lib f pk) ms"
    from scanModels_exhausted [OF this] nil show ?thesis by simp
  next
    assume "\<exists>ms1 m ms2. ms = ms1 @ m # ms2 \<and> list_all (noMatchIn lib f pk) ms1 \<and>
      (matchIn lib f pk m \<or> (\<exists>err. fetchKeys lib f m = Inl err))"
    then obtain ms1 m ms2 where d: "ms = ms1 @ m # ms2" "list_all (noMatchIn lib f pk) ms1"
      "matchIn lib f pk m \<or> (\<exists>err. fetchKeys lib f m = Inl err)" by blast
    from d(3) show ?thesis
    proof
      assume "matchIn lib f pk m"
      with d show ?thesis by blast
    next
      assume "\<exists>err. fetchKeys lib f m = Inl err"
      then obtain err where "fetchKeys lib f m = Inl err" ..
      from scanModels_first_failure [OF d(2) this, of ms2] nil d(1) show ?thesis by simp
    qed
  qed
next
  assume "\<exists>ms1 m ms2. ms = ms1 @ m # ms2 \<and> list_all (noMatchIn lib f pk) ms1 \<and> matchIn lib f pk m"
  then obtain ms1 m ms2 where d: "ms = ms1 @ m # ms2" "list_all (noMatchIn lib f pk) ms1"
    "matchIn lib f pk m" by blast
  from scanModels_first_match [OF d(2) d(3), of ms2] d(1)
  show "snd (scanModels lib f pk ms) = None" by simp
qed

lemma scanModels_notfound_iff:
  "(\<exists>e. snd (scanModels lib f pk ms) = Some e \<and> IsNotFound e) \<longleftrightarrow>
   list_all (noMatchIn lib f pk) ms"
proof
  assume nf: "\<exists>e. snd (scanModels lib f pk ms) = Some e \<and> IsNotFound e"
  from scan_cases [of lib f pk ms] show "list_all (noMatchIn lib f pk) ms"
  proof
    assume "list_all (noMatchIn lib f pk) ms"
    then show ?thesis .
  next
    assume "\<exists>ms1 m ms2. ms = ms1 @ m # ms2 \<and> list_all (noMatchIn lib f pk) ms1 \<and>
      (matchIn lib f pk m \<or> (\<exists>err. fetchKeys lib f m = Inl err))"
    then obtain ms1 m ms2 where d: "ms = ms1 @ m # ms2" "list_all (noMatchIn lib f pk) ms1"
      "matchIn lib f pk m \<or> (\<exists>err. fetchKeys lib f m = Inl err)" by blast
    from d(3) show ?thesis
    proof
      assume "matchIn lib f pk m"
      from scanModels_first_match [OF d(2) this, of ms2] nf d(1) show ?thesis by simp
    next
      assume "\<exists>err. fetchKeys lib f m = Inl err"
      then obtain err where "fetchKeys lib f m = Inl err" ..
      from scanModels_first_failure [OF d(2) this, of ms2] nf d(1) show ?thesis by simp
    qed
  qed
next
  assume "list_all (noMatchIn lib f pk) ms"
  from scanModels_exhausted [OF this] show
    "\<exists>e. snd (scanModels lib f pk ms) = Some e \<and> IsNotFound e" by simp
qed

lemma first_match_exists:
  assumes "\<forall>m'\<in>set ms1. \<exists>ks. fetchKeys lib f m' = Inr ks" "matchIn lib f pk m"
  shows "\<exists>as x bs. ms1 @ m # ms2 = as @ x # bs \<and> list_all (noMatchIn lib f pk) as \<and>
           matchIn lib f pk x"
proof -
  from scan_cases [of lib f pk ms1] show ?thesis
  proof
    assume "list_all (noMatchIn lib f pk) ms1"
    with assms(2) show ?thesis by blast
  next
    assume "\<exists>as x bs. ms1 = as @ x # bs \<and> list_all (noMatchIn lib f pk) as \<and>
      (matchIn lib f pk x \<or> (\<exists>err. fetchKeys lib f x = Inl err))"
    then obtain as x bs where d: "ms1 = as @ x # bs" "list_all (noMatchIn lib f pk) as"
      "matchIn lib f pk x \<or> (\<exists>err. fetchKeys lib f x = Inl err)" by blast
    from d(1) assms(1) have "\<exists>ks. fetchKeys lib f x = Inr ks" by simp
    with d(3) have "matchIn lib f pk x" by auto
    moreover from d(1) have "ms1 @ m # ms2 = as @ x # (bs @ m # ms2)" by simp
    ultimately show ?thesis using d(2) by blast
  qed
qed


lemma entryMatches_iff:
  "entryMatches lib pk authKey \<longleftrightarrow>
   (\<exists>pubKey. ParseAuthorizedKey lib authKey = Inr pubKey \<and> KeysEqual lib pk pubKey)"
  by (cases "ParseAuthorizedKey lib authKey") (simp_all add: entryMatches_def)

lemma matchIn_iff:
  "matchIn lib f pk m \<longleftrightarrow>
   (\<exists>ks. fetchKeys lib f m = Inr ks \<and>
      (\<exists>authKey\<in>set ks. \<exists>pubKey. ParseAuthorizedKey lib authKey = Inr pubKey \<and>
         KeysEqual lib pk pubKey))"
  by (cases "fetchKeys lib f m") (simp_all add: matchIn_def list_ex_iff entryMatches_iff)

lemma noMatchIn_iff:
  "noMatchIn lib f pk m \<longleftrightarrow>
   (\<exists>ks. fetchKeys lib f m = Inr ks \<and>
      (\<forall>authKey\<in>set ks. \<forall>pubKey. ParseAuthorizedKey lib authKey = Inr pubKey \<longrightarrow>
         \<not> KeysEqual lib pk pubKey))"
  by (cases "fetchKeys lib f m") (simp_all add: noMatchIn_def list_all_iff entryMatches_iff)

lemma GetModel_in_fetch_calls:
  "CallGetModel m \<in> set (fst (authorizedKeysPerModel lib f x)) \<Longrightarrow> m = x"
  by (auto simp: authorizedKeysPerModel_def split: sum.splits)

lemma GetModel_notin_key_calls:
  "CallGetModel m \<notin> set (fst (scanAuthKeys lib pk ks))"
  by (induction ks) (auto split: sum.splits prod.splits)

lemma scanModels_performed_fetch_fails:
  "CallGetModel m \<in> set (fst (scanModels lib f pk ms)) \<Longrightarrow> fetchKeys lib f m = Inl err \<Longrightarrow>
   snd (scanModels lib f pk ms) =
     Some (Errorf (''failed to get authorized key for model: '' @ Error err))"
proof (induction ms)
  case Nil
  then show ?case by simp
next
  case (Cons x xs)
  show ?case
  proof (cases "fetchKeys lib f x")
    case (Inl e)
    from scanModels_fetch_fails [OF Inl, of pk xs] Cons.prems(1)
    have "m = x" by (auto dest: GetModel_in_fetch_calls)
    with Inl Cons.prems(2) have "e = err" by simp
    with scanModels_fetch_fails [OF Inl, of pk xs] show ?thesis by simp
  next
    case (Inr ks)
    with Cons.prems(2) have neq: "m \<noteq> x" by auto
    note fetch = authorizedKeysPerModel_Inr [OF Inr]
    show ?thesis
    proof (cases "snd (scanAuthKeys lib pk ks)")
      case True
      then obtain cs where "scanAuthKeys lib pk ks = (cs, True)"
        by (cases "scanAuthKeys lib pk ks") simp
      then have "fst (scanModels lib f pk (x # xs)) =
          [CallGetModel x, CallConfig x, CallRelease x] @ fst (scanAuthKeys lib pk ks)"
        by (simp add: fetch)
      with Cons.prems(1) neq GetModel_notin_key_calls [of m lib pk ks] show ?thesis by simp
    next
      case False
      then obtain cs where "scanAuthKeys lib pk ks = (cs, False)"
        by (cases "scanAuthKeys lib pk ks") simp
      then have eq: "scanModels lib f pk (x # xs) =
          ([CallGetModel x, CallConfig x, CallRelease x] @ fst (scanAuthKeys lib pk ks)
             @ fst (scanModels lib f pk xs), snd (scanModels lib f pk xs))"
        by (simp add: fetch split: prod.splits)
      with Cons.prems(1) neq GetModel_notin_key_calls [of m lib pk ks]
      have "CallGetModel m \<in> set (fst (scanModels lib f pk xs))" by simp
      from Cons.IH [OF this Cons.prems(2)] eq show ?thesis by simp
    qed
  qed
qed

lemma scanModels_first_match_calls:
  assumes "list_all (noMatchIn lib f pk) ms1"
    and "fetchKeys lib f m = Inr (ks1 @ k # ks2)"
    and "list_all (\<lambda>k. \<not> entryMatches lib pk k) ks1"
    and "entryMatches lib pk k"
  shows "scanModels lib f pk (ms1 @ m # ms2) =
     (concat (map (fullScanCalls lib f) ms1)
        @ [CallGetModel m, CallConfig m, CallRelease m]
        @ map CallParseAuthorizedKey (ks1 @ [k]), None)"
proof -
  have "scanModels lib f pk (m # ms2) =
     ([CallGetModel m, CallConfig m, CallRelease m] @ map CallParseAuthorizedKey (ks1 @ [k]), None)"
    by (simp add: authorizedKeysPerModel_Inr [OF assms(2)] scanAuthKeys_first [OF assms(3) assms(4)]
             del: map_append)
  with scanModels_prefix [OF assms(1), of "m # ms2"] show ?thesis by simp
qed

lemma scanModels_same_responses:
  "statePool f' = statePool f \<Longrightarrow> scanModels lib f' pk ms = scanModels lib f pk ms"
  by (induction ms) (simp_all add: authorizedKeysPerModel_def)

subsection \<open>The example controller, evaluated\<close>

lemma ex_fetch_m1: "fetchKeys exLib exFacade ''m1'' = Inr [''garbage'', ''ssh-rsa K1 owner'']"
  by (simp add: fetchKeys_def authorizedKeysPerModel_def exLib_def exFacade_def
        exPool_def exSystemState_def)

lemma ex_fetch_m2: "fetchKeys exLib exFacade ''m2'' = Inr [''ssh-rsa K2 bob'', ''ssh-rsa K1 laptop'']"
  by (simp add: fetchKeys_def authorizedKeysPerModel_def exLib_def exFacade_def
        exPool_def exSystemState_def)

lemma ex_fetch_m3: "fetchKeys exLib exFacade ''m3'' = Inl (Trace (Errorf ''config unavailable''))"
  by (simp add: fetchKeys_def authorizedKeysPerModel_def exLib_def exFacade_def
        exPool_def exSystemState_def)

lemma ex_fetch_gone: "fetchKeys exLib exFacade ''gone'' = Inl (Trace (NotFoundf ''model gone''))"
  by (simp add: fetchKeys_def authorizedKeysPerModel_def exLib_def exFacade_def
        exPool_def exSystemState_def)

lemma ex_entries:
  "ParseAuthorizedKey exLib ''garbage'' = Inl (Errorf ''ssh: no key found'')"
  "ParseAuthorizedKey exLib ''ssh-rsa K1 owner'' = Inr 1"
  "ParseAuthorizedKey exLib ''ssh-rsa K2 bob'' = Inr 2"
  "ParseAuthorizedKey exLib ''ssh-rsa K1 laptop'' = Inr 1"
  by (simp_all add: exLib_def)

lemma ex_keys:
  "ParsePublicKey exLib ''K1'' = Inr 1"
  "ParsePublicKey exLib ''K2'' = Inr 2"
  "ParsePublicKey exLib ''K3'' = Inl (Errorf ''ssh: short read'')"
  "KeysEqual exLib a b = (a = b)"
  by (simp_all add: exLib_def)

lemma ex_tags:
  "ParseUserTag exLib ''user-owner'' = Inr ''owner''"
  "ParseUserTag exLib ''user-bob'' = Inr ''bob''"
  "ParseUserTag exLib ''user-carol'' = Inr ''carol''"
  "ParseUserTag exLib ''user-dave'' = Inr ''dave''"
  "ParseUserTag exLib ''user-erin'' = Inr ''erin''"
  "ParseUserTag exLib ''user-down'' = Inr ''down''"
  "ParseUserTag exLib ''user-nomodel'' = Inr ''nomodel''"
  "ParseUserTag exLib ''bob'' = Inl (Errorf ''bob is not a valid user tag'')"
  by (simp_all add: exLib_def)

lemma ex_models:
  "ModelUUIDsForUser (systemState exFacade) ''owner'' = Inr [''m1'', ''m2'']"
  "ModelUUIDsForUser (systemState exFacade) ''bob'' = Inr [''m2'']"
  "ModelUUIDsForUser (systemState exFacade) ''carol'' = Inr [''gone'', ''m1'']"
  "ModelUUIDsForUser (systemState exFacade) ''dave'' = Inr [''m2'', ''m3'']"
  "ModelUUIDsForUser (systemState exFacade) ''erin'' = Inr [''m3'', ''m1'']"
  "ModelUUIDsForUser (systemState exFacade) ''down'' = Inl (Errorf ''connection is shut down'')"
  "ModelUUIDsForUser (systemState exFacade) ''nomodel'' = Inr []"
  by (simp_all add: exFacade_def exSystemState_def)

lemma ex_run_carol:
  "PublicKeyAuthentication exLib exFacade \<lparr>UserTag = ''user-carol'', PublicKey = ''K1''\<rparr> =
     ([CallModelUUIDsForUser ''carol'', CallGetModel ''gone''],
      Some (Errorf ''failed to get authorized key for model: model gone not found''))"
  by (simp add: PublicKeyAuthentication_def authorizedKeysPerModel_def exLib_def exFacade_def
        exPool_def exSystemState_def)

section \<open>The claims about the facade\<close>

text \<open>
  C1 (as amended). Provided the user tag and the candidate key parse and the model listing
  succeeds, \<^verbatim>\<open>PublicKeyAuthentication\<close> returns \<^verbatim>\<open>nil\<close> if and only if the candidate
  is equal, by \<^verbatim>\<open>KeysEqual\<close> on the parsed keys, to some parseable entry of the
  authorized-key list of a listed model such that the lists of that model and of every
  model listed before it are fetched without error. If every listed model's list is
  fetched and no parseable entry of any of them is equal to the candidate (also when no
  model is listed), it returns the not-found error.
\<close>

theorem PublicKeyAuthentication_grants_iff:
  assumes "ParseUserTag lib (UserTag a) = Inr u"
    and "ParsePublicKey lib (PublicKey a) = Inr pk"
    and "ModelUUIDsForUser (systemState f) u = Inr ms"
  shows "(snd (PublicKeyAuthentication lib f a) = None \<longleftrightarrow>
          (\<exists>ms1 m ms2 ks. ms = ms1 @ m # ms2 \<and>
             (\<forall>m'\<in>set ms1. \<exists>ks'. fetchKeys lib f m' = Inr ks') \<and>
             fetchKeys lib f m = Inr ks \<and>
             (\<exists>authKey\<in>set ks. \<exists>pubKey.
                ParseAuthorizedKey lib authKey = Inr pubKey \<and> KeysEqual lib pk pubKey)))
       \<and> ((\<forall>m\<in>set ms. \<exists>ks. fetchKeys lib f m = Inr ks \<and>
              (\<forall>authKey\<in>set ks. \<forall>pubKey.
                 ParseAuthorizedKey lib authKey = Inr pubKey \<longrightarrow> \<not> KeysEqual lib pk pubKey))
           \<longrightarrow> snd (PublicKeyAuthentication lib f a) =
                 Some (NotFoundf ''matching public key not found''))"
proof (intro conjI iffI impI)
  note run = PublicKeyAuthentication_listed [OF assms]
  {
    assume "snd (PublicKeyAuthentication lib f a) = None"
    with run have "snd (scanModels lib f pk ms) = None" by simp
    then obtain ms1 m ms2 where d: "ms = ms1 @ m # ms2" "list_all (noMatchIn lib f pk) ms1"
      "matchIn lib f pk m" unfolding scanModels_nil_iff by blast
    from d(2) have "\<forall>m'\<in>set ms1. \<exists>ks'. fetchKeys lib f m' = Inr ks'"
      by (auto simp: list_all_iff dest: noMatchIn_fetched)
    with d(1) d(3) show "\<exists>ms1 m ms2 ks. ms = ms1 @ m # ms2 \<and>
             (\<forall>m'\<in>set ms1. \<exists>ks'. fetchKeys lib f m' = Inr ks') \<and>
             fetchKeys lib f m = Inr ks \<and>
             (\<exists>authKey\<in>set ks. \<exists>pubKey.
                ParseAuthorizedKey lib authKey = Inr pubKey \<and> KeysEqual lib pk pubKey)"
      unfolding matchIn_iff by blast
  }
  {
    assume "\<exists>ms1 m ms2 ks. ms = ms1 @ m # ms2 \<and>
             (\<forall>m'\<in>set ms1. \<exists>ks'. fetchKeys lib f m' = Inr ks') \<and>
             fetchKeys lib f m = Inr ks \<and>
             (\<exists>authKey\<in>set ks. \<exists>pubKey.
                ParseAuthorizedKey lib authKey = Inr pubKey \<and> KeysEqual lib pk pubKey)"
    then obtain ms1 m ms2 where d: "ms = ms1 @ m # ms2"
      "\<forall>m'\<in>set ms1. \<exists>ks'. fetchKeys lib f m' = Inr ks'" "matchIn lib f pk m"
      unfolding matchIn_iff by blast
    from first_match_exists [OF d(2) d(3), of ms2] d(1)
    have "snd (scanModels lib f pk ms) = None" unfolding scanModels_nil_iff by simp
    with run show "snd (PublicKeyAuthentication lib f a) = None" by simp
  }
  {
    assume "\<forall>m\<in>set ms. \<exists>ks. fetchKeys lib f m = Inr ks \<and>
              (\<forall>authKey\<in>set ks. \<forall>pubKey.
                 ParseAuthorizedKey lib authKey = Inr pubKey \<longrightarrow> \<not> KeysEqual lib pk pubKey)"
    then have "list_all (noMatchIn lib f pk) ms"
      unfolding list_all_iff noMatchIn_iff .
    from scanModels_exhausted [OF this] run
    show "snd (PublicKeyAuthentication lib f a) = Some (NotFoundf ''matching public key not found'')"
      by simp
  }
qed

theorem PublicKeyAuthentication_grants_iff_witness:
  "snd (PublicKeyAuthentication exLib exFacade \<lparr>UserTag = ''user-owner'', PublicKey = ''K2''\<rparr>) = None
   \<and> snd (PublicKeyAuthentication exLib exFacade \<lparr>UserTag = ''user-nomodel'', PublicKey = ''K1''\<rparr>)
       = Some (NotFoundf ''matching public key not found'')"
proof
  let ?a = "\<lparr>UserTag = ''user-owner'', PublicKey = ''K2''\<rparr>"
  have h: "ParseUserTag exLib (UserTag ?a) = Inr ''owner''"
    "ParsePublicKey exLib (PublicKey ?a) = Inr 2"
    "ModelUUIDsForUser (systemState exFacade) ''owner'' = Inr [''m1'', ''m2'']"
    by (simp_all add: ex_tags ex_keys ex_models)
  have "[''m1'', ''m2''] = [''m1''] @ ''m2'' # [] \<and>
        (\<forall>m'\<in>set [''m1'']. \<exists>ks'. fetchKeys exLib exFacade m' = Inr ks') \<and>
        fetchKeys exLib exFacade ''m2'' = Inr [''ssh-rsa K2 bob'', ''ssh-rsa K1 laptop''] \<and>
        (\<exists>authKey\<in>set [''ssh-rsa K2 bob'', ''ssh-rsa K1 laptop'']. \<exists>pubKey.
            ParseAuthorizedKey exLib authKey = Inr pubKey \<and> KeysEqual exLib 2 pubKey)"
    by (simp add: ex_fetch_m1 ex_fetch_m2 ex_entries ex_keys)
  then have "\<exists>ms1 m ms2 ks. [''m1'', ''m2''] = ms1 @ m # ms2 \<and>
        (\<forall>m'\<in>set ms1. \<exists>ks'. fetchKeys exLib exFacade m' = Inr ks') \<and>
        fetchKeys exLib exFacade m = Inr ks \<and>
        (\<exists>authKey\<in>set ks. \<exists>pubKey.
            ParseAuthorizedKey exLib authKey = Inr pubKey \<and> KeysEqual exLib 2 pubKey)"
    by blast
  with PublicKeyAuthentication_grants_iff [OF h]
  show "snd (PublicKeyAuthentication exLib exFacade ?a) = None" by blast
next
  let ?a = "\<lparr>UserTag = ''user-nomodel'', PublicKey = ''K1''\<rparr>"
  have h: "ParseUserTag exLib (UserTag ?a) = Inr ''nomodel''"
    "ParsePublicKey exLib (PublicKey ?a) = Inr 1"
    "ModelUUIDsForUser (systemState exFacade) ''nomodel'' = Inr []"
    by (simp_all add: ex_tags ex_keys ex_models)
  from PublicKeyAuthentication_grants_iff [OF h]
  show "snd (PublicKeyAuthentication exLib exFacade ?a) =
      Some (NotFoundf ''matching public key not found'')" by simp
qed

text \<open>
  C1 as stated fails: the user \<open>carol\<close> can access the models \<open>gone\<close> and \<open>m1\<close>, the
  candidate key is equal to a parseable entry of the list of \<open>m1\<close>, and the call does
  not return \<^verbatim>\<open>nil\<close>, because the fetch for \<open>gone\<close>, listed first, fails.
\<close>

theorem PublicKeyAuthentication_later_model_counterexample:
  "ParseUserTag exLib ''user-carol'' = Inr ''carol''
   \<and> ParsePublicKey exLib ''K1'' = Inr 1
   \<and> ModelUUIDsForUser (systemState exFacade) ''carol'' = Inr [''gone'', ''m1'']
   \<and> fetchKeys exLib exFacade ''m1'' = Inr [''garbage'', ''ssh-rsa K1 owner'']
   \<and> ParseAuthorizedKey exLib ''ssh-rsa K1 owner'' = Inr 1
   \<and> KeysEqual exLib 1 1
   \<and> snd (PublicKeyAuthentication exLib exFacade \<lparr>UserTag = ''user-carol'', PublicKey = ''K1''\<rparr>)
       = Some (Errorf ''failed to get authorized key for model: model gone not found'')"
proof -
  have "snd (PublicKeyAuthentication exLib exFacade \<lparr>UserTag = ''user-carol'', PublicKey = ''K1''\<rparr>)
       = Some (Errorf ''failed to get authorized key for model: model gone not found'')"
    by (simp add: PublicKeyAuthentication_def authorizedKeysPerModel_def exLib_def exFacade_def
        exPool_def exSystemState_def)
  then show ?thesis
    by (simp add: ex_tags ex_keys ex_models ex_fetch_m1 ex_entries)
qed

text \<open>
  C2. The scan takes the models in the order of the listing and, within a model, the
  entries in stored order, and returns \<^verbatim>\<open>nil\<close> at the first matching entry: when the
  models before \<open>m\<close> hold no match and the first matching entry of \<open>m\<close> is \<open>k\<close>, the
  calls made are the listing, the complete scans of the earlier models in order, the fetch
  of \<open>m\<close> and the parse attempts up to and including \<open>k\<close>; nothing is fetched or
  parsed for the entries after \<open>k\<close> or the models after \<open>m\<close>. The outcome is a
  function of the responses: two facades with the same system state and state pool give
  the same calls and the same result.
\<close>

theorem PublicKeyAuthentication_first_match_wins:
  assumes "ParseUserTag lib (UserTag a) = Inr u"
    and "ParsePublicKey lib (PublicKey a) = Inr pk"
    and "ModelUUIDsForUser (systemState (f :: ('u, 'r) Facade)) u = Inr (ms1 @ m # ms2)"
    and "list_all (noMatchIn lib f pk) ms1"
    and "fetchKeys lib f m = Inr (ks1 @ k # ks2)"
    and "list_all (\<lambda>authKey. \<not> entryMatches lib pk authKey) ks1"
    and "entryMatches lib pk k"
  shows "PublicKeyAuthentication lib f a =
           (CallModelUUIDsForUser u
              # concat (map (fullScanCalls lib f) ms1)
              @ [CallGetModel m, CallConfig m, CallRelease m]
              @ map CallParseAuthorizedKey (ks1 @ [k]),
            None)
         \<and> (\<forall>f'. systemState f' = systemState f \<and> statePool f' = statePool f \<longrightarrow>
               PublicKeyAuthentication lib f' a = PublicKeyAuthentication lib f a)"
proof
  from PublicKeyAuthentication_listed [OF assms(1-3)]
    scanModels_first_match_calls [OF assms(4-7), of ms2]
  show "PublicKeyAuthentication lib f a =
           (CallModelUUIDsForUser u
              # concat (map (fullScanCalls lib f) ms1)
              @ [CallGetModel m, CallConfig m, CallRelease m]
              @ map CallParseAuthorizedKey (ks1 @ [k]),
            None)" by simp
next
  show "\<forall>f'. systemState f' = systemState f \<and> statePool f' = statePool f \<longrightarrow>
          PublicKeyAuthentication lib f' a = PublicKeyAuthentication lib f a"
  proof (intro allI impI)
    fix f' :: "('u, 's) Facade"
    assume same: "systemState f' = systemState f \<and> statePool f' = statePool f"
    then have scan: "scanModels lib f' = scanModels lib f"
      by (intro ext) (simp add: scanModels_same_responses [of f' f])
    from same have sys: "systemState f' = systemState f" ..
    show "PublicKeyAuthentication lib f' a = PublicKeyAuthentication lib f a"
      by (simp only: PublicKeyAuthentication_def scan sys)
  qed
qed

theorem PublicKeyAuthentication_first_match_wins_witness:
  "PublicKeyAuthentication exLib exFacade \<lparr>UserTag = ''user-dave'', PublicKey = ''K2''\<rparr> =
     ([CallModelUUIDsForUser ''dave'', CallGetModel ''m2'', CallConfig ''m2'', CallRelease ''m2'',
       CallParseAuthorizedKey ''ssh-rsa K2 bob''], None)"
proof -
  let ?a = "\<lparr>UserTag = ''user-dave'', PublicKey = ''K2''\<rparr>"
  have h: "ParseUserTag exLib (UserTag ?a) = Inr ''dave''"
    "ParsePublicKey exLib (PublicKey ?a) = Inr 2"
    "ModelUUIDsForUser (systemState exFacade) ''dave'' = Inr ([] @ ''m2'' # [''m3''])"
    "list_all (noMatchIn exLib exFacade 2) []"
    "fetchKeys exLib exFacade ''m2'' = Inr ([] @ ''ssh-rsa K2 bob'' # [''ssh-rsa K1 laptop''])"
    "list_all (\<lambda>authKey. \<not> entryMatches exLib 2 authKey) []"
    "entryMatches exLib 2 ''ssh-rsa K2 bob''"
    by (simp_all add: ex_tags ex_keys ex_models ex_fetch_m2 entryMatches_def ex_entries)
  from PublicKeyAuthentication_first_match_wins [OF h, THEN conjunct1] show ?thesis by simp
qed

text \<open>
  C3. If the user tag or the public key does not parse, the call returns an error naming
  the parse failure (the user tag's first), which is not classified as not found, and no
  call is made: no model listing, no fetch.
\<close>

theorem PublicKeyAuthentication_parse_errors:
  assumes "isl (ParseUserTag lib (UserTag a)) \<or> isl (ParsePublicKey lib (PublicKey a))"
  shows "\<exists>e. PublicKeyAuthentication lib f a = ([], Some e) \<and> \<not> IsNotFound e \<and>
           ((\<exists>err. ParseUserTag lib (UserTag a) = Inl err \<and>
                e = Errorf (''failed to parse user tag: '' @ Error err)) \<or>
            (\<exists>err. ParsePublicKey lib (PublicKey a) = Inl err \<and>
                e = Errorf (''failed to parse public key: '' @ Error err)))"
proof (cases "ParseUserTag lib (UserTag a)")
  case (Inl err)
  then show ?thesis by (simp add: PublicKeyAuthentication_def)
next
  case (Inr u)
  with assms obtain err where "ParsePublicKey lib (PublicKey a) = Inl err"
    by (cases "ParsePublicKey lib (PublicKey a)") auto
  with Inr show ?thesis by (simp add: PublicKeyAuthentication_def)
qed

theorem PublicKeyAuthentication_parse_errors_witness:
  "PublicKeyAuthentication exLib exFacade \<lparr>UserTag = ''bob'', PublicKey = ''K2''\<rparr> =
     ([], Some (Errorf ''failed to parse user tag: bob is not a valid user tag''))
   \<and> PublicKeyAuthentication exLib exFacade \<lparr>UserTag = ''user-bob'', PublicKey = ''K3''\<rparr> =
     ([], Some (Errorf ''failed to parse public key: ssh: short read''))"
proof
  let ?a = "\<lparr>UserTag = ''bob'', PublicKey = ''K2''\<rparr>"
  have "isl (ParseUserTag exLib (UserTag ?a)) \<or> isl (ParsePublicKey exLib (PublicKey ?a))"
    by (simp add: ex_tags)
  from PublicKeyAuthentication_parse_errors [OF this, of exFacade]
  show "PublicKeyAuthentication exLib exFacade ?a =
     ([], Some (Errorf ''failed to parse user tag: bob is not a valid user tag''))"
    by (auto simp: ex_tags ex_keys)
next
  let ?a = "\<lparr>UserTag = ''user-bob'', PublicKey = ''K3''\<rparr>"
  have "isl (ParseUserTag exLib (UserTag ?a)) \<or> isl (ParsePublicKey exLib (PublicKey ?a))"
    by (simp add: ex_keys)
  from PublicKeyAuthentication_parse_errors [OF this, of exFacade]
  show "PublicKeyAuthentication exLib exFacade ?a =
     ([], Some (Errorf ''failed to parse public key: ssh: short read''))"
    by (auto simp: ex_tags ex_keys)
qed

text \<open>
  C4. An entry that does not parse is skipped and the scan goes on with the rest of the
  list. Whatever entries stand before and after it, a parseable entry equal to the
  candidate in the list of a model that the scan reaches makes the call return
  \<^verbatim>\<open>nil\<close>.
\<close>

theorem malformed_entries_skipped:
  "(isl (ParseAuthorizedKey lib authKey) \<longrightarrow>
      scanAuthKeys lib pk (authKey # rest) =
        (CallParseAuthorizedKey authKey # fst (scanAuthKeys lib pk rest),
         snd (scanAuthKeys lib pk rest)))
   \<and> (ParseUserTag lib (UserTag a) = Inr u \<and> ParsePublicKey lib (PublicKey a) = Inr pk \<and>
      ModelUUIDsForUser (systemState f) u = Inr (ms1 @ m # ms2) \<and>
      (\<forall>m'\<in>set ms1. \<exists>ks. fetchKeys lib f m' = Inr ks) \<and>
      fetchKeys lib f m = Inr (before @ good # after) \<and>
      ParseAuthorizedKey lib good = Inr pubKey \<and> KeysEqual lib pk pubKey
      \<longrightarrow> snd (PublicKeyAuthentication lib f a) = None)"
proof (intro conjI impI)
  assume "isl (ParseAuthorizedKey lib authKey)"
  then show "scanAuthKeys lib pk (authKey # rest) =
        (CallParseAuthorizedKey authKey # fst (scanAuthKeys lib pk rest),
         snd (scanAuthKeys lib pk rest))"
    by (cases "ParseAuthorizedKey lib authKey") (simp_all split: prod.splits)
next
  assume h: "ParseUserTag lib (UserTag a) = Inr u \<and> ParsePublicKey lib (PublicKey a) = Inr pk \<and>
      ModelUUIDsForUser (systemState f) u = Inr (ms1 @ m # ms2) \<and>
      (\<forall>m'\<in>set ms1. \<exists>ks. fetchKeys lib f m' = Inr ks) \<and>
      fetchKeys lib f m = Inr (before @ good # after) \<and>
      ParseAuthorizedKey lib good = Inr pubKey \<and> KeysEqual lib pk pubKey"
  then have "matchIn lib f pk m"
    unfolding matchIn_iff by auto
  with h first_match_exists [of ms1 lib f pk m ms2]
  have "snd (scanModels lib f pk (ms1 @ m # ms2)) = None"
    unfolding scanModels_nil_iff by blast
  with h PublicKeyAuthentication_listed [of lib a u pk f "ms1 @ m # ms2"]
  show "snd (PublicKeyAuthentication lib f a) = None" by simp
qed

theorem malformed_entries_skipped_witness:
  "scanAuthKeys exLib (1::nat) [''garbage'', ''ssh-rsa K1 owner''] =
     ([CallParseAuthorizedKey ''garbage'', CallParseAuthorizedKey ''ssh-rsa K1 owner''] :: string call list,
      True)
   \<and> snd (PublicKeyAuthentication exLib exFacade \<lparr>UserTag = ''user-owner'', PublicKey = ''K1''\<rparr>)
       = None"
proof
  have bad: "isl (ParseAuthorizedKey exLib ''garbage'')" by (simp add: ex_entries)
  have "scanAuthKeys exLib (1::nat) [''ssh-rsa K1 owner''] =
      ([CallParseAuthorizedKey ''ssh-rsa K1 owner''] :: string call list, True)"
    by (simp add: ex_entries ex_keys)
  with malformed_entries_skipped [of exLib "''garbage''" 1 "[''ssh-rsa K1 owner'']",
      THEN conjunct1, THEN mp, OF bad]
  show "scanAuthKeys exLib (1::nat) [''garbage'', ''ssh-rsa K1 owner''] =
     ([CallParseAuthorizedKey ''garbage'', CallParseAuthorizedKey ''ssh-rsa K1 owner''] :: string call list,
      True)"
    by simp
next
  let ?a = "\<lparr>UserTag = ''user-owner'', PublicKey = ''K1''\<rparr>"
  have "ParseUserTag exLib (UserTag ?a) = Inr ''owner'' \<and>
      ParsePublicKey exLib (PublicKey ?a) = Inr 1 \<and>
      ModelUUIDsForUser (systemState exFacade) ''owner'' = Inr ([] @ ''m1'' # [''m2'']) \<and>
      (\<forall>m'\<in>set []. \<exists>ks. fetchKeys exLib exFacade m' = Inr ks) \<and>
      fetchKeys exLib exFacade ''m1'' = Inr ([''garbage''] @ ''ssh-rsa K1 owner'' # []) \<and>
      ParseAuthorizedKey exLib ''ssh-rsa K1 owner'' = Inr 1 \<and> KeysEqual exLib 1 1"
    by (simp add: ex_tags ex_keys ex_models ex_fetch_m1 ex_entries)
  then show "snd (PublicKeyAuthentication exLib exFacade ?a) = None"
    by (rule malformed_entries_skipped [THEN conjunct2, THEN mp])
qed

subsection \<open>The fetch of a model and the remote interface\<close>

text \<open>
  The outcome of \<^verbatim>\<open>authorizedKeysPerModel\<close> in terms of what the state pool and the
  model answer: it fails exactly when \<^verbatim>\<open>GetModel\<close> or \<^verbatim>\<open>Config\<close> fails, with that
  error traced, and otherwise gives the split authorized keys of the configuration.
\<close>

lemma fetchKeys_remote_failure:
  "GetModel (statePool f) m = Inl err \<or>
   (\<exists>mdl. GetModel (statePool f) m = Inr mdl \<and> Config mdl = Inl err) \<Longrightarrow>
   fetchKeys lib f m = Inl (Trace err)"
  by (auto simp: fetchKeys_def authorizedKeysPerModel_def)

lemma fetchKeys_Inl_iff:
  "fetchKeys lib f m = Inl e \<longleftrightarrow>
   (\<exists>err. e = Trace err \<and>
      (GetModel (statePool f) m = Inl err \<or>
       (\<exists>mdl. GetModel (statePool f) m = Inr mdl \<and> Config mdl = Inl err)))"
  by (auto simp: fetchKeys_def authorizedKeysPerModel_def split: sum.splits)

lemma fetchKeys_Inr_iff:
  "fetchKeys lib f m = Inr ks \<longleftrightarrow>
   (\<exists>mdl cfg. GetModel (statePool f) m = Inr mdl \<and> Config mdl = Inr cfg \<and>
      ks = SplitAuthorisedKeys lib (AuthorizedKeys cfg))"
  by (auto simp: fetchKeys_def authorizedKeysPerModel_def split: sum.splits)

lemma fetch_calls_remote:
  "fst (authorizedKeysPerModel lib f m) =
     (if isl (GetModel (statePool f) m) then [CallGetModel m]
      else [CallGetModel m, CallConfig m, CallRelease m])"
  by (auto simp: authorizedKeysPerModel_def split: sum.splits)

lemma noMatchIn_remote:
  "noMatchIn lib f pk m \<longleftrightarrow>
   (\<exists>mdl cfg. GetModel (statePool f) m = Inr mdl \<and> Config mdl = Inr cfg \<and>
      (\<forall>authKey\<in>set (SplitAuthorisedKeys lib (AuthorizedKeys cfg)). \<forall>pubKey.
         ParseAuthorizedKey lib authKey = Inr pubKey \<longrightarrow> \<not> KeysEqual lib pk pubKey))"
  unfolding noMatchIn_iff fetchKeys_Inr_iff by auto

lemma fullScanCalls_remote:
  "noMatchIn lib f pk m \<Longrightarrow>
   fullScanCalls lib f m =
     [CallGetModel m, CallConfig m, CallRelease m]
     @ map CallParseAuthorizedKey (storedEntries lib f m)"
  unfolding noMatchIn_remote
  by (auto simp: fullScanCalls_def fetchKeys_def authorizedKeysPerModel_def storedEntries_def)

lemma Errorf_prefix_not_wraps:
  "prefix \<noteq> [] \<Longrightarrow> \<not> wraps (Errorf (prefix @ Error err)) err"
proof
  assume p: "prefix \<noteq> []" and "wraps (Errorf (prefix @ Error err)) err"
  then have "err = Errorf (prefix @ Error err)" by simp
  then have "Error err = prefix @ Error err" by (cases err) simp_all
  then have "length (Error err) = length prefix + length (Error err)"
    by (metis length_append)
  with p show False by simp
qed

lemma ex_remote:
  "GetModel (statePool exFacade) ''gone'' = Inl (NotFoundf ''model gone'')"
  "GetModel (statePool exFacade) ''m3'' = Inr \<lparr>Config = Inl (Errorf ''config unavailable'')\<rparr>"
  "GetModel (statePool exFacade) ''m1'' =
     Inr \<lparr>Config = Inr \<lparr>AuthorizedKeys = ''garbage'' @ [CHR 0x0A] @ ''ssh-rsa K1 owner''\<rparr>\<rparr>"
  by (simp_all add: exFacade_def exPool_def)

lemma ex_run_erin:
  "PublicKeyAuthentication exLib exFacade \<lparr>UserTag = ''user-erin'', PublicKey = ''K1''\<rparr> =
     ([CallModelUUIDsForUser ''erin'', CallGetModel ''m3'', CallConfig ''m3'', CallRelease ''m3''],
      Some (Errorf ''failed to get authorized key for model: config unavailable''))"
  by (simp add: PublicKeyAuthentication_def authorizedKeysPerModel_def exLib_def exFacade_def
        exPool_def exSystemState_def)

text \<open>
  C5 (as amended). A failure of the model listing, or of a \<^verbatim>\<open>GetModel\<close> or
  \<^verbatim>\<open>Config\<close> call for a model that the scan fetches, gives an error whose message is a
  fixed prefix followed by the message of the remote failure. That error does not keep
  the remote failure in its chain, and it is not classified as not found, even when the
  remote failure itself is. The call returns an error classified as not found exactly
  when the listing succeeds and, for every listed model, \<^verbatim>\<open>GetModel\<close> and \<^verbatim>\<open>Config\<close>
  succeed and no parseable stored entry is equal to the candidate.
\<close>

theorem remote_failure_is_not_NotFound:
  assumes "ParseUserTag lib (UserTag a) = Inr u"
    and "ParsePublicKey lib (PublicKey a) = Inr pk"
  shows "(ModelUUIDsForUser (systemState f) u = Inl err \<longrightarrow>
            snd (PublicKeyAuthentication lib f a) =
              Some (Errorf (''failed to get model uuids for user: '' @ Error err)) \<and>
            \<not> IsNotFound (Errorf (''failed to get model uuids for user: '' @ Error err)) \<and>
            \<not> wraps (Errorf (''failed to get model uuids for user: '' @ Error err)) err)
       \<and> (CallGetModel m \<in> set (fst (PublicKeyAuthentication lib f a)) \<and>
          (GetModel (statePool f) m = Inl err \<or>
           (\<exists>mdl. GetModel (statePool f) m = Inr mdl \<and> Config mdl = Inl err)) \<longrightarrow>
            snd (PublicKeyAuthentication lib f a) =
              Some (Errorf (''failed to get authorized key for model: '' @ Error err)) \<and>
            \<not> IsNotFound (Errorf (''failed to get authorized key for model: '' @ Error err)) \<and>
            \<not> wraps (Errorf (''failed to get authorized key for model: '' @ Error err)) err)
       \<and> ((\<exists>e. snd (PublicKeyAuthentication lib f a) = Some e \<and> IsNotFound e) \<longleftrightarrow>
            (\<exists>ms. ModelUUIDsForUser (systemState f) u = Inr ms \<and>
               (\<forall>m'\<in>set ms. \<exists>mdl cfg.
                  GetModel (statePool f) m' = Inr mdl \<and> Config mdl = Inr cfg \<and>
                  (\<forall>authKey\<in>set (SplitAuthorisedKeys lib (AuthorizedKeys cfg)). \<forall>pubKey.
                     ParseAuthorizedKey lib authKey = Inr pubKey \<longrightarrow>
                     \<not> KeysEqual lib pk pubKey))))"
proof (intro conjI impI)
  assume "ModelUUIDsForUser (systemState f) u = Inl err"
  with assms show "snd (PublicKeyAuthentication lib f a) =
      Some (Errorf (''failed to get model uuids for user: '' @ Error err))"
    by (simp add: PublicKeyAuthentication_def)
next
  assume h: "CallGetModel m \<in> set (fst (PublicKeyAuthentication lib f a)) \<and>
    (GetModel (statePool f) m = Inl err \<or>
     (\<exists>mdl. GetModel (statePool f) m = Inr mdl \<and> Config mdl = Inl err))"
  then have fails: "fetchKeys lib f m = Inl (Trace err)"
    by (simp add: fetchKeys_remote_failure)
  show "snd (PublicKeyAuthentication lib f a) =
      Some (Errorf (''failed to get authorized key for model: '' @ Error err))"
  proof (cases "ModelUUIDsForUser (systemState f) u")
    case (Inl e)
    with assms h show ?thesis by (simp add: PublicKeyAuthentication_def)
  next
    case (Inr ms)
    note run = PublicKeyAuthentication_listed [OF assms Inr]
    with h have "CallGetModel m \<in> set (fst (scanModels lib f pk ms))" by simp
    from scanModels_performed_fetch_fails [OF this fails] run show ?thesis by simp
  qed
next
  show "(\<exists>e. snd (PublicKeyAuthentication lib f a) = Some e \<and> IsNotFound e) \<longleftrightarrow>
        (\<exists>ms. ModelUUIDsForUser (systemState f) u = Inr ms \<and>
               (\<forall>m'\<in>set ms. \<exists>mdl cfg.
                  GetModel (statePool f) m' = Inr mdl \<and> Config mdl = Inr cfg \<and>
                  (\<forall>authKey\<in>set (SplitAuthorisedKeys lib (AuthorizedKeys cfg)). \<forall>pubKey.
                     ParseAuthorizedKey lib authKey = Inr pubKey \<longrightarrow>
                     \<not> KeysEqual lib pk pubKey)))"
  proof (cases "ModelUUIDsForUser (systemState f) u")
    case (Inl e)
    with assms show ?thesis by (simp add: PublicKeyAuthentication_def)
  next
    case (Inr ms)
    have "list_all (noMatchIn lib f pk) ms \<longleftrightarrow>
        (\<forall>m'\<in>set ms. \<exists>mdl cfg.
                  GetModel (statePool f) m' = Inr mdl \<and> Config mdl = Inr cfg \<and>
                  (\<forall>authKey\<in>set (SplitAuthorisedKeys lib (AuthorizedKeys cfg)). \<forall>pubKey.
                     ParseAuthorizedKey lib authKey = Inr pubKey \<longrightarrow>
                     \<not> KeysEqual lib pk pubKey))"
      unfolding list_all_iff noMatchIn_remote ..
    with PublicKeyAuthentication_listed [OF assms Inr] scanModels_notfound_iff [of lib f pk ms] Inr
    show ?thesis by simp
  qed
next
  show "\<not> wraps (Errorf (''failed to get model uuids for user: '' @ Error err)) err"
    by (rule Errorf_prefix_not_wraps) simp
next
  show "\<not> wraps (Errorf (''failed to get authorized key for model: '' @ Error err)) err"
    by (rule Errorf_prefix_not_wraps) simp
qed simp_all

theorem remote_failure_is_not_NotFound_witness:
  "snd (PublicKeyAuthentication exLib exFacade \<lparr>UserTag = ''user-down'', PublicKey = ''K1''\<rparr>) =
     Some (Errorf ''failed to get model uuids for user: connection is shut down'')
   \<and> snd (PublicKeyAuthentication exLib exFacade \<lparr>UserTag = ''user-carol'', PublicKey = ''K1''\<rparr>) =
     Some (Errorf ''failed to get authorized key for model: model gone not found'')
   \<and> IsNotFound (NotFoundf ''model gone'')
   \<and> snd (PublicKeyAuthentication exLib exFacade \<lparr>UserTag = ''user-erin'', PublicKey = ''K1''\<rparr>) =
     Some (Errorf ''failed to get authorized key for model: config unavailable'')
   \<and> (\<exists>e. snd (PublicKeyAuthentication exLib exFacade
                 \<lparr>UserTag = ''user-nomodel'', PublicKey = ''K1''\<rparr>) = Some e \<and> IsNotFound e)"
proof (intro conjI)
  let ?a = "\<lparr>UserTag = ''user-down'', PublicKey = ''K1''\<rparr>"
  have h: "ParseUserTag exLib (UserTag ?a) = Inr ''down''"
    "ParsePublicKey exLib (PublicKey ?a) = Inr 1"
    by (simp_all add: ex_tags ex_keys)
  from remote_failure_is_not_NotFound [OF h, of exFacade "Errorf ''connection is shut down''",
      THEN conjunct1]
  show "snd (PublicKeyAuthentication exLib exFacade ?a) =
     Some (Errorf ''failed to get model uuids for user: connection is shut down'')"
    by (simp add: ex_models)
next
  let ?a = "\<lparr>UserTag = ''user-carol'', PublicKey = ''K1''\<rparr>"
  have h: "ParseUserTag exLib (UserTag ?a) = Inr ''carol''"
    "ParsePublicKey exLib (PublicKey ?a) = Inr 1"
    by (simp_all add: ex_tags ex_keys)
  have "CallGetModel ''gone'' \<in> set (fst (PublicKeyAuthentication exLib exFacade ?a)) \<and>
      (GetModel (statePool exFacade) ''gone'' = Inl (NotFoundf ''model gone'') \<or>
       (\<exists>mdl. GetModel (statePool exFacade) ''gone'' = Inr mdl \<and>
           Config mdl = Inl (NotFoundf ''model gone'')))"
    by (simp add: ex_run_carol ex_remote)
  from remote_failure_is_not_NotFound [OF h, of exFacade "NotFoundf ''model gone''" "''gone''",
      THEN conjunct2, THEN conjunct1, THEN mp, OF this]
  show "snd (PublicKeyAuthentication exLib exFacade ?a) =
     Some (Errorf ''failed to get authorized key for model: model gone not found'')"
    by simp
next
  show "IsNotFound (NotFoundf ''model gone'')" by simp
next
  let ?a = "\<lparr>UserTag = ''user-erin'', PublicKey = ''K1''\<rparr>"
  have h: "ParseUserTag exLib (UserTag ?a) = Inr ''erin''"
    "ParsePublicKey exLib (PublicKey ?a) = Inr 1"
    by (simp_all add: ex_tags ex_keys)
  have "CallGetModel ''m3'' \<in> set (fst (PublicKeyAuthentication exLib exFacade ?a)) \<and>
      (GetModel (statePool exFacade) ''m3'' = Inl (Errorf ''config unavailable'') \<or>
       (\<exists>mdl. GetModel (statePool exFacade) ''m3'' = Inr mdl \<and>
           Config mdl = Inl (Errorf ''config unavailable'')))"
    by (simp add: ex_run_erin ex_remote)
  from remote_failure_is_not_NotFound [OF h, of exFacade "Errorf ''config unavailable''" "''m3''",
      THEN conjunct2, THEN conjunct1, THEN mp, OF this]
  show "snd (PublicKeyAuthentication exLib exFacade ?a) =
     Some (Errorf ''failed to get authorized key for model: config unavailable'')"
    by simp
next
  let ?a = "\<lparr>UserTag = ''user-nomodel'', PublicKey = ''K1''\<rparr>"
  have h: "ParseUserTag exLib (UserTag ?a) = Inr ''nomodel''"
    "ParsePublicKey exLib (PublicKey ?a) = Inr 1"
    by (simp_all add: ex_tags ex_keys)
  have "\<exists>ms. ModelUUIDsForUser (systemState exFacade) ''nomodel'' = Inr ms \<and>
      (\<forall>m'\<in>set ms. \<exists>mdl cfg.
          GetModel (statePool exFacade) m' = Inr mdl \<and> Config mdl = Inr cfg \<and>
          (\<forall>authKey\<in>set (SplitAuthorisedKeys exLib (AuthorizedKeys cfg)). \<forall>pubKey.
              ParseAuthorizedKey exLib authKey = Inr pubKey \<longrightarrow> \<not> KeysEqual exLib 1 pubKey))"
    by (simp add: ex_models)
  with remote_failure_is_not_NotFound [OF h, of exFacade undefined undefined,
      THEN conjunct2, THEN conjunct2]
  show "\<exists>e. snd (PublicKeyAuthentication exLib exFacade ?a) = Some e \<and> IsNotFound e"
    by blast
qed

text \<open>
  C5 as stated fails in one word: the returned error does not wrap the remote failure.
  For the user \<open>down\<close> the listing fails, and the error returned is a fresh
  \<^verbatim>\<open>Errorf\<close> whose chain does not hold the listing's error, only its text.
\<close>

theorem remote_failure_not_wrapped_counterexample:
  "ParseUserTag exLib ''user-down'' = Inr ''down''
   \<and> ParsePublicKey exLib ''K1'' = Inr 1
   \<and> ModelUUIDsForUser (systemState exFacade) ''down'' = Inl (Errorf ''connection is shut down'')
   \<and> snd (PublicKeyAuthentication exLib exFacade \<lparr>UserTag = ''user-down'', PublicKey = ''K1''\<rparr>) =
       Some (Errorf ''failed to get model uuids for user: connection is shut down'')
   \<and> \<not> wraps (Errorf ''failed to get model uuids for user: connection is shut down'')
          (Errorf ''connection is shut down'')"
proof -
  have "snd (PublicKeyAuthentication exLib exFacade \<lparr>UserTag = ''user-down'', PublicKey = ''K1''\<rparr>) =
       Some (Errorf ''failed to get model uuids for user: connection is shut down'')"
    by (simp add: PublicKeyAuthentication_def exLib_def exFacade_def exSystemState_def)
  then show ?thesis
    by (simp add: ex_tags ex_keys ex_models)
qed

text \<open>
  C9. When the scan reaches a model for which \<^verbatim>\<open>GetModel\<close> or \<^verbatim>\<open>Config\<close> fails,
  the models before it having been fetched and scanned without a match, it stops there
  and returns the fetch error. The calls made end with that model's, so the models listed
  after it are not fetched, and a key that matches an entry of one of them does not
  grant access: in both instances below the key is authorized on the later model \<open>m1\<close>.
\<close>

theorem fetch_failure_aborts_scan:
  assumes "ParseUserTag lib (UserTag a) = Inr u"
    and "ParsePublicKey lib (PublicKey a) = Inr pk"
    and "ModelUUIDsForUser (systemState f) u = Inr (ms1 @ m # ms2)"
    and "\<forall>m'\<in>set ms1. \<exists>mdl cfg.
           GetModel (statePool f) m' = Inr mdl \<and> Config mdl = Inr cfg \<and>
           (\<forall>authKey\<in>set (SplitAuthorisedKeys lib (AuthorizedKeys cfg)). \<forall>pubKey.
              ParseAuthorizedKey lib authKey = Inr pubKey \<longrightarrow> \<not> KeysEqual lib pk pubKey)"
    and "GetModel (statePool f) m = Inl err \<or>
         (\<exists>mdl. GetModel (statePool f) m = Inr mdl \<and> Config mdl = Inl err)"
  shows "PublicKeyAuthentication lib f a =
           (CallModelUUIDsForUser u
              # concat (map (\<lambda>m'. [CallGetModel m', CallConfig m', CallRelease m']
                                  @ map CallParseAuthorizedKey (storedEntries lib f m')) ms1)
              @ (if isl (GetModel (statePool f) m) then [CallGetModel m]
                 else [CallGetModel m, CallConfig m, CallRelease m]),
            Some (Errorf (''failed to get authorized key for model: '' @ Error err)))"
proof -
  from assms(4) have scanned: "list_all (noMatchIn lib f pk) ms1"
    unfolding list_all_iff noMatchIn_remote .
  have "\<forall>m'\<in>set ms1. fullScanCalls lib f m' =
      [CallGetModel m', CallConfig m', CallRelease m']
      @ map CallParseAuthorizedKey (storedEntries lib f m')"
  proof
    fix m'
    assume "m' \<in> set ms1"
    with scanned have "noMatchIn lib f pk m'" by (simp add: list_all_iff)
    then show "fullScanCalls lib f m' =
      [CallGetModel m', CallConfig m', CallRelease m']
      @ map CallParseAuthorizedKey (storedEntries lib f m')"
      by (rule fullScanCalls_remote)
  qed
  then have calls: "map (fullScanCalls lib f) ms1 =
      map (\<lambda>m'. [CallGetModel m', CallConfig m', CallRelease m']
                 @ map CallParseAuthorizedKey (storedEntries lib f m')) ms1"
    by (simp cong: map_cong)
  have fails: "fetchKeys lib f m = Inl (Trace err)"
    using assms(5) by (rule fetchKeys_remote_failure)
  from PublicKeyAuthentication_listed [OF assms(1-3)]
    scanModels_first_failure [OF scanned fails, of ms2]
  show ?thesis
    by (simp only: calls fetch_calls_remote Error.simps fst_conv snd_conv)
qed

theorem fetch_failure_aborts_scan_witness:
  "matchIn exLib exFacade 1 ''m1''
   \<and> PublicKeyAuthentication exLib exFacade \<lparr>UserTag = ''user-carol'', PublicKey = ''K1''\<rparr> =
     ([CallModelUUIDsForUser ''carol'', CallGetModel ''gone''],
      Some (Errorf ''failed to get authorized key for model: model gone not found''))
   \<and> PublicKeyAuthentication exLib exFacade \<lparr>UserTag = ''user-erin'', PublicKey = ''K1''\<rparr> =
     ([CallModelUUIDsForUser ''erin'', CallGetModel ''m3'', CallConfig ''m3'', CallRelease ''m3''],
      Some (Errorf ''failed to get authorized key for model: config unavailable''))"
proof (intro conjI)
  show "matchIn exLib exFacade 1 ''m1''"
    by (simp add: matchIn_def ex_fetch_m1 entryMatches_def ex_entries ex_keys)
next
  let ?a = "\<lparr>UserTag = ''user-carol'', PublicKey = ''K1''\<rparr>"
  have h: "ParseUserTag exLib (UserTag ?a) = Inr ''carol''"
    "ParsePublicKey exLib (PublicKey ?a) = Inr 1"
    "ModelUUIDsForUser (systemState exFacade) ''carol'' = Inr ([] @ ''gone'' # [''m1''])"
    "\<forall>m'\<in>set []. \<exists>mdl cfg.
        GetModel (statePool exFacade) m' = Inr mdl \<and> Config mdl = Inr cfg \<and>
        (\<forall>authKey\<in>set (SplitAuthorisedKeys exLib (AuthorizedKeys cfg)). \<forall>pubKey.
            ParseAuthorizedKey exLib authKey = Inr pubKey \<longrightarrow> \<not> KeysEqual exLib 1 pubKey)"
    "GetModel (statePool exFacade) ''gone'' = Inl (NotFoundf ''model gone'') \<or>
     (\<exists>mdl. GetModel (statePool exFacade) ''gone'' = Inr mdl \<and>
         Config mdl = Inl (NotFoundf ''model gone''))"
    by (simp_all add: ex_tags ex_keys ex_models ex_remote)
  from fetch_failure_aborts_scan [OF h]
  show "PublicKeyAuthentication exLib exFacade ?a =
     ([CallModelUUIDsForUser ''carol'', CallGetModel ''gone''],
      Some (Errorf ''failed to get authorized key for model: model gone not found''))"
    by (simp add: ex_remote)
next
  let ?a = "\<lparr>UserTag = ''user-erin'', PublicKey = ''K1''\<rparr>"
  have h: "ParseUserTag exLib (UserTag ?a) = Inr ''erin''"
    "ParsePublicKey exLib (PublicKey ?a) = Inr 1"
    "ModelUUIDsForUser (systemState exFacade) ''erin'' = Inr ([] @ ''m3'' # [''m1''])"
    "\<forall>m'\<in>set []. \<exists>mdl cfg.
        GetModel (statePool exFacade) m' = Inr mdl \<and> Config mdl = Inr cfg \<and>
        (\<forall>authKey\<in>set (SplitAuthorisedKeys exLib (AuthorizedKeys cfg)). \<forall>pubKey.
            ParseAuthorizedKey exLib authKey = Inr pubKey \<longrightarrow> \<not> KeysEqual exLib 1 pubKey)"
    "GetModel (statePool exFacade) ''m3'' = Inl (Errorf ''config unavailable'') \<or>
     (\<exists>mdl. GetModel (statePool exFacade) ''m3'' = Inr mdl \<and>
         Config mdl = Inl (Errorf ''config unavailable''))"
    by (simp_all add: ex_tags ex_keys ex_models ex_remote)
  from fetch_failure_aborts_scan [OF h]
  show "PublicKeyAuthentication exLib exFacade ?a =
     ([CallModelUUIDsForUser ''erin'', CallGetModel ''m3'', CallConfig ''m3'', CallRelease ''m3''],
      Some (Errorf ''failed to get authorized key for model: config unavailable''))"
    by (simp add: ex_remote)
qed

text \<open>
  C10 (as amended). \<^verbatim>\<open>NewExternalFacade\<close> constructs a facade if and only if the caller
  is a controller and the state pool yields its system state. For a caller that is not
  a controller it returns the permission error and no facade; the factory that
  \<^verbatim>\<open>Register\<close> puts on the registry then returns a nil \<^verbatim>\<open>*Facade\<close> together with the
  permission error, so every RPC through it, whatever the method, is refused with that
  error and no method of the facade is reached.
\<close>

theorem NewExternalFacade_controller_only:
  "(\<not> AuthController (Auth ctx) \<longrightarrow> NewExternalFacade ctx = Inl ErrPerm)
   \<and> ((\<exists>fa. NewExternalFacade ctx = Inr fa) \<longleftrightarrow>
        AuthController (Auth ctx) \<and> (\<exists>sys. SystemState (StatePool ctx) = Inr sys))
   \<and> (\<not> AuthController (Auth ctx) \<longrightarrow>
        (\<exists>factory. Register registry (''SSHServer'', 1) = Some factory \<and>
           factory ctx = (FacadePointer None, Some ErrPerm) \<and>
           (\<forall>method. rpcCall factory ctx method = Refused ErrPerm)))"
  by (cases "SystemState (StatePool ctx)")
     (simp_all add: NewExternalFacade_def Register_def rpcCall_def)

theorem NewExternalFacade_controller_only_witness:
  "NewExternalFacade (exCtx False) = Inl ErrPerm
   \<and> NewExternalFacade (exCtx True) = Inr exFacade
   \<and> Error ErrPerm = ''permission denied''
   \<and> rpcCall (the (Register Map.empty (''SSHServer'', 1))) (exCtx False)
        (\<lambda>fa. PublicKeyAuthentication exLib fa \<lparr>UserTag = ''user-owner'', PublicKey = ''K1''\<rparr>)
       = Refused ErrPerm
   \<and> rpcCall (the (Register Map.empty (''SSHServer'', 1))) (exCtx True)
        (\<lambda>fa. snd (PublicKeyAuthentication exLib fa \<lparr>UserTag = ''user-owner'', PublicKey = ''K1''\<rparr>))
       = Reached None"
proof (intro conjI)
  have "\<not> AuthController (Auth (exCtx False))" by (simp add: exCtx_def)
  with NewExternalFacade_controller_only [of "exCtx False"]
  show "NewExternalFacade (exCtx False) = Inl ErrPerm" by blast
next
  show "NewExternalFacade (exCtx True) = Inr exFacade"
    by (simp add: NewExternalFacade_def NewFacade_def exCtx_def exPool_def exFacade_def)
next
  show "Error ErrPerm = ''permission denied''" by simp
next
  have "\<not> AuthController (Auth (exCtx False))" by (simp add: exCtx_def)
  with NewExternalFacade_controller_only [of "exCtx False" Map.empty]
  obtain factory :: "(string, unit) Factory" where
    "Register Map.empty (''SSHServer'', 1) = Some factory"
    "\<forall>method :: (string, unit) Facade \<Rightarrow> string call list \<times> error option.
        rpcCall factory (exCtx False) method = Refused ErrPerm" by blast
  then show "rpcCall (the (Register Map.empty (''SSHServer'', 1))) (exCtx False)
        (\<lambda>fa. PublicKeyAuthentication exLib fa \<lparr>UserTag = ''user-owner'', PublicKey = ''K1''\<rparr>)
       = Refused ErrPerm" by simp
next
  have "NewExternalFacade (exCtx True) = Inr exFacade"
    by (simp add: NewExternalFacade_def NewFacade_def exCtx_def exPool_def exFacade_def)
  moreover have "snd (PublicKeyAuthentication exLib exFacade
      \<lparr>UserTag = ''user-owner'', PublicKey = ''K1''\<rparr>) = None"
    by (simp add: PublicKeyAuthentication_def authorizedKeysPerModel_def exLib_def exFacade_def
        exPool_def exSystemState_def)
  ultimately show "rpcCall (the (Register Map.empty (''SSHServer'', 1))) (exCtx True)
        (\<lambda>fa. snd (PublicKeyAuthentication exLib fa \<lparr>UserTag = ''user-owner'', PublicKey = ''K1''\<rparr>))
       = Reached None"
    by (simp add: Register_def rpcCall_def)
qed

text \<open>
  C10 as stated fails in one direction: a controller whose state pool is closed gets the
  pool's error, traced, and no facade.
\<close>

theorem NewExternalFacade_closed_pool_counterexample:
  "AuthController (Auth closedCtx)
   \<and> NewExternalFacade closedCtx = Inl (Trace (Errorf ''pool is closed''))"
  by (simp add: NewExternalFacade_def closedCtx_def)

section \<open>The claims about the worker\<close>

text \<open>
  C6. A configuration whose host key, listener or authorization client is unset is
  rejected with an error classified as not valid; a configuration with every field set
  is accepted.
\<close>

theorem Validate_requires_all_fields:
  "(JumpHostKey cfg = [] \<or> Listener cfg = None \<or> FacadeClient cfg = None \<longrightarrow>
      (\<exists>e. Validate cfg = Some e \<and> IsNotValid e))
   \<and> (Logger cfg \<noteq> None \<and> Listener cfg \<noteq> None \<and> JumpHostKey cfg \<noteq> [] \<and>
      FacadeClient cfg \<noteq> None \<longrightarrow> Validate cfg = None)"
  by (simp add: Validate_def)

theorem Validate_requires_all_fields_witness:
  "(\<exists>e. Validate \<lparr>Logger = Some (), Listener = None :: unit option,
                   JumpHostKey = ''jumpHostKey'', FacadeClient = None\<rparr> = Some e \<and> IsNotValid e)
   \<and> Validate \<lparr>Logger = Some (), Listener = Some (), JumpHostKey = ''jumpHostKey'',
                FacadeClient = Some aliceClient\<rparr> = None"
proof
  let ?cfg = "\<lparr>Logger = Some (), Listener = None :: unit option,
               JumpHostKey = ''jumpHostKey'', FacadeClient = None\<rparr>"
  have "JumpHostKey ?cfg = [] \<or> Listener ?cfg = None \<or> FacadeClient ?cfg = None" by simp
  then show "\<exists>e. Validate ?cfg = Some e \<and> IsNotValid e"
    by (rule Validate_requires_all_fields [THEN conjunct1, THEN mp])
next
  let ?cfg = "\<lparr>Logger = Some (), Listener = Some (), JumpHostKey = ''jumpHostKey'',
                FacadeClient = Some aliceClient\<rparr>"
  have "Logger ?cfg \<noteq> None \<and> Listener ?cfg \<noteq> None \<and> JumpHostKey ?cfg \<noteq> [] \<and>
      FacadeClient ?cfg \<noteq> None" by simp
  then show "Validate ?cfg = None"
    by (rule Validate_requires_all_fields [THEN conjunct2, THEN mp])
qed

text \<open>
  C7. On a fresh session the handler writes exactly the acknowledgement, the destination
  as unit number, application name, model identifier and domain suffix separated by
  dots, then the user, then one line feed, and leaves session and channel closed. The
  instance below is the session of \<^verbatim>\<open>TestSSHServer\<close>.
\<close>

theorem sessionHandler_acknowledgement:
  "sessionHandler d user newSession =
     \<lparr>sessionOutput = ''Your final destination is: '' @ decimal (unitNumber d) @ ''.''
          @ applicationName d @ ''.'' @ modelID d @ ''.'' @ domainSuffix
          @ '' as user: '' @ user @ [CHR 0x0A],
      sessionClosed = True, channelClosed = True\<rparr>"
  by (simp add: sessionHandler_def newSession_def destinationHost_def)

theorem sessionHandler_acknowledgement_witness:
  "sessionHandler
     \<lparr>unitNumber = 1, applicationName = ''postgresql'',
      modelID = ''8419cd78-4993-4c3a-928e-c646226beeee'', port = 20\<rparr> ''ubuntu'' newSession =
     \<lparr>sessionOutput = ''Your final destination is: 1.postgresql.8419cd78-4993-4c3a-928e-c646226beeee.juju.local as user: ubuntu'' @ [CHR 0x0A],
      sessionClosed = True, channelClosed = True\<rparr>"
  using sessionHandler_acknowledgement [of
      "\<lparr>unitNumber = 1, applicationName = ''postgresql'',
        modelID = ''8419cd78-4993-4c3a-928e-c646226beeee'', port = 20\<rparr>" "''ubuntu''"]
  by (simp add: domainSuffix_def digit_def)

lemma terminatingHandshake_fails_iff:
  "terminatingHandshake client tagOf user keys = UnableToAuthenticate \<longleftrightarrow>
   (\<forall>k\<in>set keys. \<not> publicKeyHandler client tagOf user k)"
  by (induction keys) simp_all

text \<open>
  C8. The callback grants a key exactly when the authorization call returns \<^verbatim>\<open>nil\<close>;
  an error for a key, not found or any other, denies that key only, and the handshake
  goes on with the keys that remain; the handshake ends in an authentication failure
  exactly when the authorization call returns an error for every offered key.
\<close>

theorem publicKeyHandler_nil_grants:
  "(publicKeyHandler client tagOf user key \<longleftrightarrow>
      client \<lparr>UserTag = tagOf user, PublicKey = key\<rparr> = None)
   \<and> (client \<lparr>UserTag = tagOf user, PublicKey = key\<rparr> = Some err \<longrightarrow>
        terminatingHandshake client tagOf user (key # keys) =
          terminatingHandshake client tagOf user keys)
   \<and> (terminatingHandshake client tagOf user keys = UnableToAuthenticate \<longleftrightarrow>
        (\<forall>k\<in>set keys. \<exists>e. client \<lparr>UserTag = tagOf user, PublicKey = k\<rparr> = Some e))"
proof -
  have grant: "publicKeyHandler client tagOf user k \<longleftrightarrow>
      client \<lparr>UserTag = tagOf user, PublicKey = k\<rparr> = None" for k
    by (simp add: publicKeyHandler_def split: option.splits)
  show ?thesis
    by (simp add: grant terminatingHandshake_fails_iff)
qed

theorem publicKeyHandler_nil_grants_witness:
  "terminatingHandshake aliceClient userTagOf ''alice'' [''K1''] = Authenticated ''K1''
   \<and> terminatingHandshake aliceClient userTagOf ''notfound'' [''K1'', ''K2''] = UnableToAuthenticate"
proof
  have "aliceClient \<lparr>UserTag = userTagOf ''alice'', PublicKey = ''K1''\<rparr> = None"
    by (simp add: aliceClient_def userTagOf_def)
  with publicKeyHandler_nil_grants [of aliceClient userTagOf "''alice''" "''K1''"]
  have "publicKeyHandler aliceClient userTagOf ''alice'' ''K1''" by blast
  then show "terminatingHandshake aliceClient userTagOf ''alice'' [''K1''] = Authenticated ''K1''"
    by simp
next
  have "\<forall>k\<in>set [''K1'', ''K2''].
      \<exists>e. aliceClient \<lparr>UserTag = userTagOf ''notfound'', PublicKey = k\<rparr> = Some e"
    by (simp add: aliceClient_def userTagOf_def)
  with publicKeyHandler_nil_grants [of aliceClient userTagOf "''notfound''" undefined undefined
      "[''K1'', ''K2'']"]
  show "terminatingHandshake aliceClient userTagOf ''notfound'' [''K1'', ''K2''] =
      UnableToAuthenticate" by blast
qed

end
